theory Spec2Isabelle
  imports Main "HOL-Library.AList" "HOL-Library.Sublist"
begin

section \<open>LipidFinder web front end: run state store and pipeline orchestration\<close>

text \<open>
  A shallow embedding of \<^verbatim>\<open>webapp/app.py\<close>: the state store (\<^verbatim>\<open>read_state\<close>,
  \<^verbatim>\<open>update_state\<close>), the alignment route (\<^verbatim>\<open>xcms\<close>), the three stage routes
  (\<^verbatim>\<open>run_peakfilter\<close>, \<^verbatim>\<open>run_amalgamator\<close>, \<^verbatim>\<open>run_mssearch\<close>) and the full
  pipeline (\<^verbatim>\<open>run_pipeline_full\<close>).

  Conventions of the model.
  \<^item> Paths and texts are \<open>string\<close>s; path arithmetic is the POSIX one
    (\<^verbatim>\<open>os.path.join\<close>, \<^verbatim>\<open>pathlib.PurePosixPath\<close>), \<^verbatim>\<open>str.lower\<close> is the ASCII one.
  \<^item> The disk is a record: the document at \<^verbatim>\<open>STATE_PATH\<close>, every other regular file,
    and the set of paths that cannot be opened for writing. The state document, when
    \<^verbatim>\<open>json.load\<close> accepts it, is a flat object of string values in key order (what
    \<^verbatim>\<open>update_state\<close> stores); a document of another JSON shape is not modelled.
  \<^item> Everything outside the program is a parameter, collected in \<open>env\<close>: the
    installation directory, the stage subprocesses (a function from the command line and
    the disk to the process result and the disk it leaves), the \<^verbatim>\<open>Rscript\<close> launcher
    (which may not be found) and the category table pandas reads from a workbook.
  \<^item> A route returns its response and the world it leaves: the disk and the command
    lines spawned so far. An exception no handler catches is the response \<open>Server_Error\<close>.
\<close>

subsection \<open>Strings and paths\<close>

definition to_lower :: "char \<Rightarrow> char" where
  "to_lower c =
     (case map_of (zip ''ABCDEFGHIJKLMNOPQRSTUVWXYZ'' ''abcdefghijklmnopqrstuvwxyz'') c of
        None \<Rightarrow> c
      | Some l \<Rightarrow> l)"

definition lower :: "string \<Rightarrow> string" where
  "lower s = map to_lower s"

text \<open>\<^verbatim>\<open>sub in s\<close> on strings is \<^const>\<open>sublist\<close> (a contiguous segment).\<close>

definition contains :: "string \<Rightarrow> string \<Rightarrow> bool" where
  "contains sub s = sublist sub s"

fun join :: "string \<Rightarrow> string list \<Rightarrow> string" where
  "join sep [] = []"
| "join sep [x] = x"
| "join sep (x # y # ys) = x @ sep @ join sep (y # ys)"

fun split_on :: "char \<Rightarrow> string \<Rightarrow> string list" where
  "split_on sep [] = [[]]"
| "split_on sep (c # cs) =
     (if c = sep then [] # split_on sep cs
      else (case split_on sep cs of [] \<Rightarrow> [[c]] | p # ps \<Rightarrow> (c # p) # ps))"

text \<open>\<^verbatim>\<open>os.path.join(a, b)\<close> of \<^verbatim>\<open>posixpath\<close>, for two components.\<close>

definition os_path_join :: "string \<Rightarrow> string \<Rightarrow> string" where
  "os_path_join a b =
     (if prefix ''/'' b then b
      else if a = [] \<or> last a = CHR ''/'' then a @ b
      else a @ ''/'' @ b)"

text \<open>
  \<^verbatim>\<open>pathlib\<close>: a path is a root and its components, empty and \<^verbatim>\<open>.\<close> components dropped;
  exactly two leading slashes are a root of their own.
\<close>

definition path_parts :: "string \<Rightarrow> string list" where
  "path_parts p = filter (\<lambda>c. c \<noteq> [] \<and> c \<noteq> ''.'') (split_on CHR ''/'' p)"

definition path_root :: "string \<Rightarrow> string" where
  "path_root p =
     (if prefix ''//'' p \<and> \<not> prefix ''///'' p then ''//''
      else if prefix ''/'' p then ''/'' else [])"

definition path_str :: "string \<Rightarrow> string list \<Rightarrow> string" where
  "path_str root parts = (if root = [] \<and> parts = [] then ''.'' else root @ join ''/'' parts)"

text \<open>\<^verbatim>\<open>str(Path(a) / b)\<close>\<close>

definition path_div :: "string \<Rightarrow> string \<Rightarrow> string" where
  "path_div a b =
     (if path_root b \<noteq> [] then path_str (path_root b) (path_parts b)
      else path_str (path_root a) (path_parts a @ path_parts b))"

text \<open>\<^verbatim>\<open>Path(p).name\<close>\<close>

definition path_name :: "string \<Rightarrow> string" where
  "path_name p = (case path_parts p of [] \<Rightarrow> [] | q # qs \<Rightarrow> last (q # qs))"

subsection \<open>The disk, the environment, the world\<close>

datatype json =
    JNull
  | JBool bool
  | JNum int
  | JStr string
  | JArr "json list"
  | JObj "(string \<times> json) list"

text \<open>
  The file at \<^verbatim>\<open>STATE_PATH\<close>: absent, a text \<^verbatim>\<open>json.load\<close> rejects (the empty text, a
  truncated document), or a stored state.
\<close>

datatype state_file =
    Absent
  | Unparseable string
  | Stored "(string \<times> string) list"

text \<open>Any other file: a JSON document, or data \<^verbatim>\<open>json.load\<close> rejects (a CSV, a workbook).\<close>

datatype disk_file = Data | Json json

record disk =
  state_json :: state_file
  files :: "string \<rightharpoonup> disk_file"
  unwritable :: "string set"

record proc =
  returncode :: int
  stdout :: string
  stderr :: string

record env =
  base_dir :: string
  sys_executable :: string
  subprocess_run :: "string list \<Rightarrow> disk \<Rightarrow> proc \<times> disk"
  rscript_run :: "string list \<Rightarrow> string \<Rightarrow> disk \<Rightarrow> (proc \<times> disk) option"
  read_category_counts :: "disk \<Rightarrow> string \<Rightarrow> (string \<times> int) list"

record world =
  on_disk :: disk
  spawned :: "string list list"

definition DOCS_DIR :: "env \<Rightarrow> string" where
  "DOCS_DIR e = base_dir e @ ''/docs''"

definition CONFIG_DIR :: "env \<Rightarrow> string" where
  "CONFIG_DIR e = base_dir e @ ''/webapp/config''"

definition STATE_PATH :: "env \<Rightarrow> string" where
  "STATE_PATH e = CONFIG_DIR e @ ''/state.json''"

definition isfile :: "env \<Rightarrow> disk \<Rightarrow> string \<Rightarrow> bool" where
  "isfile e d p = (if p = STATE_PATH e then state_json d \<noteq> Absent else files d p \<noteq> None)"

datatype py_error =
  FileNotFoundError | JSONDecodeError | PermissionError | AttributeError | TypeError

subsection \<open>The run state store\<close>

text \<open>The body of the \<^verbatim>\<open>try\<close> of \<^verbatim>\<open>read_state\<close>: \<^verbatim>\<open>open\<close>, then \<^verbatim>\<open>json.load\<close>.\<close>

definition load_state_file :: "disk \<Rightarrow> py_error + (string \<times> string) list" where
  "load_state_file d =
     (case state_json d of
        Absent \<Rightarrow> Inl FileNotFoundError
      | Unparseable t \<Rightarrow> Inl JSONDecodeError
      | Stored st \<Rightarrow> Inr st)"

definition read_state :: "disk \<Rightarrow> (string \<times> string) list" where
  "read_state d = (case load_state_file d of Inl err \<Rightarrow> [] | Inr st \<Rightarrow> st)"

text \<open>
  \<^verbatim>\<open>state[k] = v\<close> on a dict keeps the position of a key it has and appends a new one:
  \<^const>\<open>AList.update\<close>. The keyword arguments are a list of keys with optional values.
\<close>

fun merge_kwargs :: "(string \<times> string option) list \<Rightarrow> (string \<times> string) list \<Rightarrow> (string \<times> string) list" where
  "merge_kwargs [] state = state"
| "merge_kwargs ((k, v) # kwargs) state =
     merge_kwargs kwargs (case v of None \<Rightarrow> state | Some x \<Rightarrow> AList.update k x state)"

text \<open>The body of the \<^verbatim>\<open>try\<close> of \<^verbatim>\<open>update_state\<close>: \<^verbatim>\<open>open(STATE_PATH, "w")\<close>, then \<^verbatim>\<open>json.dump\<close>.\<close>

definition dump_state_file :: "env \<Rightarrow> (string \<times> string) list \<Rightarrow> disk \<Rightarrow> py_error + disk" where
  "dump_state_file e state d =
     (if STATE_PATH e \<in> unwritable d then Inl PermissionError
      else Inr (d\<lparr>state_json := Stored state\<rparr>))"

definition update_state :: "env \<Rightarrow> (string \<times> string option) list \<Rightarrow> disk \<Rightarrow> disk" where
  "update_state e kwargs d =
     (let state = merge_kwargs kwargs (read_state d)
      in case dump_state_file e state d of Inl err \<Rightarrow> d | Inr d' \<Rightarrow> d')"

subsection \<open>Requests, responses, subprocesses\<close>

text \<open>\<^verbatim>\<open>request.form\<close>: a field is present with a text, or absent.\<close>

type_synonym form = "string \<rightharpoonup> string"

definition form_get :: "form \<Rightarrow> string \<Rightarrow> string \<Rightarrow> string" where
  "form_get f k dflt = (case f k of None \<Rightarrow> dflt | Some v \<Rightarrow> v)"

text \<open>\<^verbatim>\<open>bool(request.form.get(k))\<close>\<close>

definition form_flag :: "form \<Rightarrow> string \<Rightarrow> bool" where
  "form_flag f k = (case f k of None \<Rightarrow> False | Some v \<Rightarrow> v \<noteq> [])"

text \<open>
  \<^verbatim>\<open>st.get(k)\<close>. Python gives \<^verbatim>\<open>None\<close> for a missing key; \<^verbatim>\<open>None\<close> and the empty string
  are both false, and every route tests a looked-up value for truth before it uses it, so
  the model gives the empty string for a missing key.
\<close>

definition st_get :: "(string \<times> string) list \<Rightarrow> string \<Rightarrow> string" where
  "st_get st k = (case map_of st k of None \<Rightarrow> [] | Some v \<Rightarrow> v)"

text \<open>\<^verbatim>\<open>a or b\<close> on strings.\<close>

definition py_or :: "string \<Rightarrow> string \<Rightarrow> string" where
  "py_or a b = (if a \<noteq> [] then a else b)"

record log_entry =
  title :: string
  command :: string
  log_stdout :: string
  log_stderr :: string
  success :: bool

record run_result =
  rr_title :: string
  rr_command :: string
  rr_success :: bool
  rr_result_path :: string
  rr_stdout :: string
  rr_stderr :: string

record pipeline_view =
  pv_success :: bool
  pv_output_dir :: string
  pv_logs :: "log_entry list"
  pv_scatter_png :: "string option"
  pv_summary_xlsx :: "string option"
  pv_full_xlsx :: "string option"
  pv_amalgamated_csv :: "string option"
  pv_category_counts :: "(string \<times> int) list"

text \<open>
  \<open>Redirect endpoint message\<close> is \<^verbatim>\<open>flash(message)\<close> followed by
  \<^verbatim>\<open>redirect(url_for(endpoint))\<close>.
\<close>

datatype response =
    Redirect string string
  | Run_Result run_result
  | Pipeline_Visualize pipeline_view
  | Server_Error py_error

definition python_cmd :: "env \<Rightarrow> string \<Rightarrow> string list \<Rightarrow> string list" where
  "python_cmd e module_name args_list = [sys_executable e, ''-m'', module_name] @ args_list"

definition run_python_module ::
  "env \<Rightarrow> string \<Rightarrow> string list \<Rightarrow> world \<Rightarrow> (string list \<times> proc) \<times> world" where
  "run_python_module e module_name args_list w =
     (let cmd = python_cmd e module_name args_list;
          r = subprocess_run e cmd (on_disk w)
      in ((cmd, fst r), \<lparr>on_disk = snd r, spawned = spawned w @ [cmd]\<rparr>))"

text \<open>The world after one subprocess when the route writes nothing after it.\<close>

definition after_spawn :: "env \<Rightarrow> string list \<Rightarrow> world \<Rightarrow> world" where
  "after_spawn e cmd w =
     \<lparr>on_disk = snd (subprocess_run e cmd (on_disk w)), spawned = spawned w @ [cmd]\<rparr>"

text \<open>
  A route that wrote nothing itself leaves the world it started in, or the world its one
  subprocess left.
\<close>

definition wrote_nothing :: "env \<Rightarrow> world \<Rightarrow> world \<Rightarrow> bool" where
  "wrote_nothing e w w' = (w' = w \<or> w' = after_spawn e (last (spawned w')) w)"

subsection \<open>Polarity of a name\<close>

text \<open>
  The routes repeat one chain of tests on a lower-cased name: \<^verbatim>\<open>"neg" in s or "negative" in s\<close>
  first, \<^verbatim>\<open>"pos" in s or "positive" in s\<close> second, anything else last.
\<close>

datatype polarity = Negative | Positive | Unknown

definition polarity_of :: "string \<Rightarrow> polarity" where
  "polarity_of s =
     (if contains ''neg'' s \<or> contains ''negative'' s then Negative
      else if contains ''pos'' s \<or> contains ''positive'' s then Positive
      else Unknown)"

subsection \<open>The alignment route\<close>

text \<open>
  \<^verbatim>\<open>xcms\<close>, the POST branch. The keys written after a run whose report exists: the generic
  one, and the polarity one when the lower-cased result path names a polarity. The disk of
  the model holds regular files only, so \<^verbatim>\<open>result_path.exists()\<close> is \<open>isfile\<close>.
\<close>

definition xcms_state_kwargs :: "string \<Rightarrow> (string \<times> string option) list" where
  "xcms_state_kwargs rp =
     (''xcms_last_csv'', Some rp) #
     (case polarity_of (lower rp) of
        Negative \<Rightarrow> [(''xcms_last_negative_csv'', Some rp)]
      | Positive \<Rightarrow> [(''xcms_last_positive_csv'', Some rp)]
      | Unknown \<Rightarrow> [])"

definition xcms :: "env \<Rightarrow> form \<Rightarrow> world \<Rightarrow> response \<times> world" where
  "xcms e f w =
     (let rscript_path = form_get f ''rscript_path'' ''Rscript'';
          mzxml_dir = form_get f ''mzxml_dir'' [];
          report_name = form_get f ''report_name'' ''xcms_report''
      in if mzxml_dir = [] then
           (Redirect ''xcms'' ''Please provide the mzXML directory path.'', w)
         else
           let script_path = DOCS_DIR e @ ''/xcms.R'';
               cmd = [rscript_path, script_path]
           in case rscript_run e cmd (mzxml_dir @ [CHR 0x0A] @ report_name @ [CHR 0x0A]) (on_disk w) of
                None \<Rightarrow>
                  (Redirect ''xcms'' ''Rscript not found. Please set the correct Rscript path.'', w)
              | Some r \<Rightarrow>
                  let result_path = path_div mzxml_dir (report_name @ ''.csv'');
                      ok = isfile e (snd r) result_path;
                      d = (if ok then update_state e (xcms_state_kwargs result_path) (snd r)
                           else snd r)
                  in (Run_Result
                        \<lparr>rr_title = ''XCMS Run'',
                         rr_command = rscript_path @ '' '' @ script_path,
                         rr_success = ok,
                         rr_result_path = result_path,
                         rr_stdout = stdout (fst r),
                         rr_stderr = stderr (fst r)\<rparr>,
                      \<lparr>on_disk = d, spawned = spawned w @ [cmd]\<rparr>))"

subsection \<open>The stage routes\<close>

text \<open>\<^verbatim>\<open>cand and os.path.isfile(cand)\<close>\<close>

definition usable :: "env \<Rightarrow> disk \<Rightarrow> string \<Rightarrow> bool" where
  "usable e d cand = (cand \<noteq> [] \<and> isfile e d cand)"

text \<open>\<^verbatim>\<open>run_peakfilter\<close>: the input, as given or as the first usable candidate of the state.\<close>

definition peakfilter_input :: "env \<Rightarrow> disk \<Rightarrow> string \<Rightarrow> string" where
  "peakfilter_input e d input_path =
     (if input_path = [] then
        let st = read_state d;
            candidates = [st_get st ''xcms_last_negative_csv'',
                          st_get st ''xcms_last_positive_csv'',
                          st_get st ''xcms_last_csv'']
        in (case find (usable e d) candidates of None \<Rightarrow> input_path | Some cand \<Rightarrow> cand)
      else input_path)"

text \<open>
  \<^verbatim>\<open>run_peakfilter\<close>: the summary hint stored after the subprocess has returned. The source
  does not consult the return code here.
\<close>

definition peakfilter_hint :: "env \<Rightarrow> string \<Rightarrow> string \<Rightarrow> disk \<Rightarrow> disk" where
  "peakfilter_hint e input_path output_dir d =
     (let lower_in = lower (path_name input_path)
      in if output_dir \<noteq> [] then
           (case polarity_of lower_in of
              Negative \<Rightarrow>
                update_state e [(''peakfilter_last_negative_summary'',
                  Some (os_path_join output_dir ''peakfilter_negative_summary.csv''))] d
            | Positive \<Rightarrow>
                update_state e [(''peakfilter_last_positive_summary'',
                  Some (os_path_join output_dir ''peakfilter_positive_summary.csv''))] d
            | Unknown \<Rightarrow>
                update_state e [(''peakfilter_last_summary'',
                  Some (os_path_join output_dir ''peakfilter_summary.csv''))] d)
         else d)"

text \<open>
  \<^verbatim>\<open>run_peakfilter\<close> from the argument list on: the subprocess, the hint, the page.
\<close>

definition peakfilter_route_args ::
  "string \<Rightarrow> string \<Rightarrow> string \<Rightarrow> bool \<Rightarrow> bool \<Rightarrow> string list" where
  "peakfilter_route_args input_path params_path output_dir verbose timestamp =
     [''-i'', input_path, ''-p'', params_path]
     @ (if output_dir \<noteq> [] then [''-o'', output_dir] else [])
     @ (if verbose then [''--verbose''] else [])
     @ (if timestamp then [''--timestamp''] else [])"

definition peakfilter_exec ::
  "env \<Rightarrow> string \<Rightarrow> string \<Rightarrow> string \<Rightarrow> bool \<Rightarrow> bool \<Rightarrow> world \<Rightarrow> response \<times> world" where
  "peakfilter_exec e input_path params_path output_dir verbose timestamp w =
     (let args = peakfilter_route_args input_path params_path output_dir verbose timestamp;
          r = run_python_module e ''LipidFinder.run_peakfilter'' args w;
          cmd = fst (fst r);
          p = snd (fst r);
          w1 = snd r
      in (Run_Result
            \<lparr>rr_title = ''PeakFilter Run'',
             rr_command = join '' '' cmd,
             rr_success = (returncode p = 0),
             rr_result_path = output_dir,
             rr_stdout = stdout p,
             rr_stderr = stderr p\<rparr>,
          w1\<lparr>on_disk := peakfilter_hint e input_path output_dir (on_disk w1)\<rparr>))"

definition run_peakfilter :: "env \<Rightarrow> form \<Rightarrow> world \<Rightarrow> response \<times> world" where
  "run_peakfilter e f w =
     (let output_dir = form_get f ''output_dir'' [];
          params_path = form_get f ''params_path'' (CONFIG_DIR e @ ''/peakfilter.json'');
          verbose = form_flag f ''verbose'';
          timestamp = form_flag f ''timestamp'';
          input_path = peakfilter_input e (on_disk w) (form_get f ''input_path'' [])
      in if input_path = [] then
           (Redirect ''pipeline'' ''No input provided and no XCMS output found. Run XCMS first.'', w)
         else if \<not> isfile e (on_disk w) params_path then
           (Redirect ''pipeline'' ''PeakFilter parameters not found. Configure them under Params.'', w)
         else peakfilter_exec e input_path params_path output_dir verbose timestamp w)"

text \<open>
  \<^verbatim>\<open>run_amalgamator\<close>: the two summaries, as given or, when one is missing, with the state
  entries filling the gaps. The source does not test a state entry with
  \<^verbatim>\<open>os.path.isfile\<close> here.
\<close>

definition amalgamator_files :: "disk \<Rightarrow> string \<Rightarrow> string \<Rightarrow> string \<times> string" where
  "amalgamator_files d neg_file pos_file =
     (if neg_file = [] \<or> pos_file = [] then
        let st = read_state d
        in (py_or neg_file (st_get st ''peakfilter_last_negative_summary''),
            py_or pos_file (st_get st ''peakfilter_last_positive_summary''))
      else (neg_file, pos_file))"

text \<open>
  \<^verbatim>\<open>run_amalgamator\<close> from the argument list on: the subprocess, the state update on
  success with an output directory, the page.
\<close>

definition amalgamator_args :: "string \<Rightarrow> string \<Rightarrow> string \<Rightarrow> string \<Rightarrow> string list" where
  "amalgamator_args neg_file pos_file params_path output_dir =
     [''-neg'', neg_file, ''-pos'', pos_file, ''-p'', params_path]
     @ (if output_dir \<noteq> [] then [''-o'', output_dir] else [])"

definition amalgamator_exec ::
  "env \<Rightarrow> string \<Rightarrow> string \<Rightarrow> string \<Rightarrow> string \<Rightarrow> world \<Rightarrow> response \<times> world" where
  "amalgamator_exec e neg_file pos_file params_path output_dir w =
     (let args = amalgamator_args neg_file pos_file params_path output_dir;
          r = run_python_module e ''LipidFinder.run_amalgamator'' args w;
          cmd = fst (fst r);
          p = snd (fst r);
          w1 = snd r;
          ok = (returncode p = 0)
      in (Run_Result
            \<lparr>rr_title = ''Amalgamator Run'',
             rr_command = join '' '' cmd,
             rr_success = ok,
             rr_result_path = output_dir,
             rr_stdout = stdout p,
             rr_stderr = stderr p\<rparr>,
          if ok \<and> output_dir \<noteq> [] then
            w1\<lparr>on_disk := update_state e
               [(''amalgamator_last_csv'', Some (os_path_join output_dir ''amalgamated.csv''))]
               (on_disk w1)\<rparr>
          else w1))"

definition run_amalgamator :: "env \<Rightarrow> form \<Rightarrow> world \<Rightarrow> response \<times> world" where
  "run_amalgamator e f w =
     (let output_dir = form_get f ''output_dir'' [];
          params_path = form_get f ''params_path'' (CONFIG_DIR e @ ''/amalgamator.json'');
          inputs = amalgamator_files (on_disk w) (form_get f ''neg_file'' []) (form_get f ''pos_file'' []);
          neg_file = fst inputs;
          pos_file = snd inputs
      in if neg_file = [] \<or> pos_file = [] then
           (Redirect ''pipeline''
              ''Missing Amalgamator inputs. Run PeakFilter for both polarities first.'', w)
         else if \<not> isfile e (on_disk w) params_path then
           (Redirect ''pipeline'' ''Amalgamator parameters not found. Configure them under Params.'', w)
         else amalgamator_exec e neg_file pos_file params_path output_dir w)"

text \<open>
  \<^verbatim>\<open>run_mssearch\<close>: the input, as given or as the first true value of the \<^verbatim>\<open>or\<close> chain over
  the state. The source does not test the value with \<^verbatim>\<open>os.path.isfile\<close> here.
\<close>

definition mssearch_input :: "disk \<Rightarrow> string \<Rightarrow> string" where
  "mssearch_input d input_file =
     (if input_file = [] then
        let st = read_state d
        in py_or (st_get st ''amalgamator_last_csv'')
            (py_or (st_get st ''peakfilter_last_negative_summary'')
              (py_or (st_get st ''peakfilter_last_positive_summary'')
                (st_get st ''peakfilter_last_summary'')))
      else input_file)"

text \<open>\<^verbatim>\<open>run_mssearch\<close> from the argument list on. No state is written.\<close>

definition mssearch_args :: "string \<Rightarrow> string \<Rightarrow> string \<Rightarrow> string list" where
  "mssearch_args input_file params_path output_dir =
     [''-i'', input_file, ''-p'', params_path]
     @ (if output_dir \<noteq> [] then [''-o'', output_dir] else [])"

definition mssearch_exec ::
  "env \<Rightarrow> string \<Rightarrow> string \<Rightarrow> string \<Rightarrow> world \<Rightarrow> response \<times> world" where
  "mssearch_exec e input_file params_path output_dir w =
     (let args = mssearch_args input_file params_path output_dir;
          r = run_python_module e ''LipidFinder.run_mssearch'' args w;
          cmd = fst (fst r);
          p = snd (fst r)
      in (Run_Result
            \<lparr>rr_title = ''MSSearch Run'',
             rr_command = join '' '' cmd,
             rr_success = (returncode p = 0),
             rr_result_path = output_dir,
             rr_stdout = stdout p,
             rr_stderr = stderr p\<rparr>,
          snd r))"

definition run_mssearch :: "env \<Rightarrow> form \<Rightarrow> world \<Rightarrow> response \<times> world" where
  "run_mssearch e f w =
     (let output_dir = form_get f ''output_dir'' [];
          params_path = form_get f ''params_path'' (CONFIG_DIR e @ ''/mssearch.json'');
          input_file = mssearch_input (on_disk w) (form_get f ''input_file'' [])
      in if input_file = [] then
           (Redirect ''pipeline'' ''Missing MSSearch input. Run Amalgamator or PeakFilter first.'', w)
         else if \<not> isfile e (on_disk w) params_path then
           (Redirect ''pipeline'' ''MSSearch parameters not found. Configure them under Params.'', w)
         else mssearch_exec e input_file params_path output_dir w)"

text \<open>The page of a stage route reports success.\<close>

definition succeeded :: "response \<Rightarrow> bool" where
  "succeeded resp = (case resp of Run_Result r \<Rightarrow> rr_success r | other \<Rightarrow> False)"

subsection \<open>The full pipeline\<close>

text \<open>
  \<^verbatim>\<open>run_pipeline_full\<close>, block by block. First the inputs taken from the state when the
  request gives neither: the polarity entries as they are, else the generic entry, which
  must be a file and goes to the branch its name tells, the negative one by default.
\<close>

definition pipeline_auto_inputs :: "env \<Rightarrow> disk \<Rightarrow> string \<times> string" where
  "pipeline_auto_inputs e d =
     (let st = read_state d;
          neg_input = py_or (st_get st ''xcms_last_negative_csv'') [];
          pos_input = py_or (st_get st ''xcms_last_positive_csv'') []
      in if neg_input = [] \<and> pos_input = [] then
           let generic = st_get st ''xcms_last_csv''
           in if usable e d generic then
                (case polarity_of (lower (path_name generic)) of
                   Negative \<Rightarrow> (generic, pos_input)
                 | Positive \<Rightarrow> (neg_input, generic)
                 | Unknown \<Rightarrow> (generic, pos_input))
              else (neg_input, pos_input)
         else (neg_input, pos_input))"

text \<open>The stages whose parameter file is missing, in the order the source appends them.\<close>

definition missing_parameters :: "env \<Rightarrow> disk \<Rightarrow> string \<Rightarrow> string \<Rightarrow> string list" where
  "missing_parameters e d neg_input pos_input =
     (if (neg_input \<noteq> [] \<or> pos_input \<noteq> []) \<and> \<not> isfile e d (CONFIG_DIR e @ ''/peakfilter.json'')
      then [''PeakFilter''] else [])
     @ (if \<not> isfile e d (CONFIG_DIR e @ ''/amalgamator.json'') then [''Amalgamator''] else [])
     @ (if \<not> isfile e d (CONFIG_DIR e @ ''/mssearch.json'') then [''MSSearch''] else [])"

definition mk_log_entry :: "string \<Rightarrow> string list \<Rightarrow> proc \<Rightarrow> log_entry" where
  "mk_log_entry ttl cmd p =
     \<lparr>title = ttl, command = join '' '' cmd, log_stdout = stdout p, log_stderr = stderr p,
      success = (returncode p = 0)\<rparr>"

text \<open>The page of a run that stopped at a failed stage.\<close>

definition failed_view :: "string \<Rightarrow> log_entry list \<Rightarrow> response" where
  "failed_view output_dir logs =
     Pipeline_Visualize
       \<lparr>pv_success = False, pv_output_dir = output_dir, pv_logs = logs,
        pv_scatter_png = None, pv_summary_xlsx = None, pv_full_xlsx = None,
        pv_amalgamated_csv = None, pv_category_counts = []\<rparr>"

definition peakfilter_args :: "string \<Rightarrow> string \<Rightarrow> string \<Rightarrow> bool \<Rightarrow> bool \<Rightarrow> string list" where
  "peakfilter_args input params output_dir verbose timestamp =
     [''-i'', input, ''-p'', params, ''-o'', output_dir]
     @ (if verbose then [''--verbose''] else [])
     @ (if timestamp then [''--timestamp''] else [])"

text \<open>\<^verbatim>\<open>json.load\<close> of a file, and the truth value of what it gives.\<close>

definition load_json_file :: "env \<Rightarrow> disk \<Rightarrow> string \<Rightarrow> py_error + json" where
  "load_json_file e d p =
     (if p = STATE_PATH e then
        (case state_json d of
           Absent \<Rightarrow> Inl FileNotFoundError
         | Unparseable t \<Rightarrow> Inl JSONDecodeError
         | Stored st \<Rightarrow> Inr (JObj (map (\<lambda>kv. (fst kv, JStr (snd kv))) st)))
      else
        (case files d p of
           None \<Rightarrow> Inl FileNotFoundError
         | Some Data \<Rightarrow> Inl JSONDecodeError
         | Some (Json j) \<Rightarrow> Inr j))"

fun truthy :: "json \<Rightarrow> bool" where
  "truthy JNull = False"
| "truthy (JBool b) = b"
| "truthy (JNum n) = (n \<noteq> 0)"
| "truthy (JStr s) = (s \<noteq> [])"
| "truthy (JArr xs) = (xs \<noteq> [])"
| "truthy (JObj kvs) = (kvs \<noteq> [])"

text \<open>\<^verbatim>\<open>obj.setdefault(k, v)\<close>: a key the object has keeps its value.\<close>

definition setdefault :: "string \<Rightarrow> json \<Rightarrow> (string \<times> json) list \<Rightarrow> (string \<times> json) list" where
  "setdefault k v obj = (case map_of obj k of None \<Rightarrow> obj @ [(k, v)] | Some x \<Rightarrow> obj)"

text \<open>
  The parameter object of the search stage: the saved one (the empty object when it cannot
  be loaded), the two defaults, the chart format. Anything but an object has no
  \<^verbatim>\<open>setdefault\<close>.
\<close>

definition ms_params_overlay :: "env \<Rightarrow> disk \<Rightarrow> py_error + (string \<times> json) list" where
  "ms_params_overlay e d =
     (case (case load_json_file e d (CONFIG_DIR e @ ''/mssearch.json'') of
              Inl err \<Rightarrow> JObj [] | Inr j \<Rightarrow> j) of
        JObj obj \<Rightarrow>
          Inr (AList.update ''figFormat'' (JStr ''png'')
                 (setdefault ''summary'' (JBool True)
                    (setdefault ''plotCategories'' (JBool True) obj)))
      | other \<Rightarrow> Inl AttributeError)"

text \<open>\<^verbatim>\<open>open(tmp_ms_params, "w")\<close> and \<^verbatim>\<open>json.dump\<close>, outside any \<^verbatim>\<open>try\<close>.\<close>

definition tmp_ms_params :: "env \<Rightarrow> string" where
  "tmp_ms_params e = CONFIG_DIR e @ ''/mssearch_web_pipeline.json''"

definition dump_ms_params :: "env \<Rightarrow> (string \<times> json) list \<Rightarrow> disk \<Rightarrow> py_error + disk" where
  "dump_ms_params e obj d =
     (if tmp_ms_params e \<in> unwritable d then Inl PermissionError
      else Inr (d\<lparr>files := (files d)(tmp_ms_params e \<mapsto> Json (JObj obj))\<rparr>))"

text \<open>\<^verbatim>\<open>(ms_params_obj.get("database") or "all_lmsd").lower()\<close>: only a string has \<^verbatim>\<open>lower\<close>.\<close>

definition db_name_of :: "(string \<times> json) list \<Rightarrow> py_error + string" where
  "db_name_of obj =
     (case map_of obj ''database'' of
        None \<Rightarrow> Inr (lower ''all_lmsd'')
      | Some v \<Rightarrow>
          if \<not> truthy v then Inr (lower ''all_lmsd'')
          else (case v of JStr s \<Rightarrow> Inr (lower s) | other \<Rightarrow> Inl AttributeError))"

definition if_file :: "env \<Rightarrow> disk \<Rightarrow> string \<Rightarrow> string option" where
  "if_file e d p = (if isfile e d p then Some p else None)"

text \<open>The page of a run whose stages all succeeded.\<close>

definition pipeline_aggregate ::
  "env \<Rightarrow> string \<Rightarrow> (string \<times> json) list \<Rightarrow> string \<Rightarrow> log_entry list \<Rightarrow> world \<Rightarrow> response \<times> world" where
  "pipeline_aggregate e output_dir ms_params_obj amalgamated_csv logs w =
     (case db_name_of ms_params_obj of
        Inl err \<Rightarrow> (Server_Error err, w)
      | Inr db_name \<Rightarrow>
          let d = on_disk w;
              summary_xlsx = os_path_join output_dir (''mssearch_'' @ db_name @ ''_summary.xlsx'');
              scatter_png = os_path_join output_dir (''category_scatterplot_'' @ db_name @ ''.png'');
              full_xlsx = os_path_join output_dir (''mssearch_'' @ db_name @ ''.xlsx'')
          in (Pipeline_Visualize
                \<lparr>pv_success = True, pv_output_dir = output_dir, pv_logs = logs,
                 pv_scatter_png = if_file e d scatter_png,
                 pv_summary_xlsx = if_file e d summary_xlsx,
                 pv_full_xlsx = if_file e d full_xlsx,
                 pv_amalgamated_csv =
                   (if amalgamated_csv \<noteq> [] \<and> isfile e d amalgamated_csv
                    then Some amalgamated_csv else None),
                 pv_category_counts =
                   (if isfile e d summary_xlsx then read_category_counts e d summary_xlsx
                    else [])\<rparr>,
              w))"

text \<open>
  The stages. A summary or the amalgamated file that was not produced is the empty string
  (\<^verbatim>\<open>None\<close> in the source, tested for truth only). Each stage appends its log entry and
  returns the failed page when its return code is not zero. A search input that is still
  \<^verbatim>\<open>None\<close> is a \<^verbatim>\<open>TypeError\<close> of \<^verbatim>\<open>subprocess.run\<close>, after the overlay was written.
\<close>

definition stage_search ::
  "env \<Rightarrow> string \<Rightarrow> string \<Rightarrow> string \<Rightarrow> string \<Rightarrow> log_entry list \<Rightarrow> world \<Rightarrow> response \<times> world" where
  "stage_search e output_dir neg_summary pos_summary amalgamated_csv logs w =
     (let ms_input = py_or amalgamated_csv (py_or neg_summary pos_summary)
      in case ms_params_overlay e (on_disk w) of
           Inl err \<Rightarrow> (Server_Error err, w)
         | Inr ms_params_obj \<Rightarrow>
             (case dump_ms_params e ms_params_obj (on_disk w) of
                Inl err \<Rightarrow> (Server_Error err, w)
              | Inr d \<Rightarrow>
                  if ms_input = [] then (Server_Error TypeError, w\<lparr>on_disk := d\<rparr>)
                  else
                    let args = [''-i'', ms_input, ''-p'', tmp_ms_params e, ''-o'', output_dir];
                        r = run_python_module e ''LipidFinder.run_mssearch'' args (w\<lparr>on_disk := d\<rparr>);
                        logs1 = logs @ [mk_log_entry ''MSSearch'' (fst (fst r)) (snd (fst r))]
                    in if returncode (snd (fst r)) \<noteq> 0 then (failed_view output_dir logs1, snd r)
                       else pipeline_aggregate e output_dir ms_params_obj amalgamated_csv logs1 (snd r)))"

definition stage_amalgamate ::
  "env \<Rightarrow> string \<Rightarrow> string \<Rightarrow> string \<Rightarrow> log_entry list \<Rightarrow> world \<Rightarrow> response \<times> world" where
  "stage_amalgamate e output_dir neg_summary pos_summary logs w =
     (if neg_summary \<noteq> [] \<and> pos_summary \<noteq> [] then
        let args = [''-neg'', neg_summary, ''-pos'', pos_summary,
                    ''-p'', CONFIG_DIR e @ ''/amalgamator.json'', ''-o'', output_dir];
            r = run_python_module e ''LipidFinder.run_amalgamator'' args w;
            logs1 = logs @ [mk_log_entry ''Amalgamator'' (fst (fst r)) (snd (fst r))]
        in if returncode (snd (fst r)) \<noteq> 0 then (failed_view output_dir logs1, snd r)
           else stage_search e output_dir neg_summary pos_summary
                  (os_path_join output_dir ''amalgamated.csv'') logs1 (snd r)
      else stage_search e output_dir neg_summary pos_summary [] logs w)"

definition stage_positive ::
  "env \<Rightarrow> string \<Rightarrow> bool \<Rightarrow> bool \<Rightarrow> string \<Rightarrow> string \<Rightarrow> log_entry list \<Rightarrow> world \<Rightarrow> response \<times> world" where
  "stage_positive e output_dir verbose timestamp pos_input neg_summary logs w =
     (if pos_input \<noteq> [] then
        let args = peakfilter_args pos_input (CONFIG_DIR e @ ''/peakfilter.json'') output_dir
                     verbose timestamp;
            r = run_python_module e ''LipidFinder.run_peakfilter'' args w;
            logs1 = logs @ [mk_log_entry ''PeakFilter (positive)'' (fst (fst r)) (snd (fst r))]
        in if returncode (snd (fst r)) \<noteq> 0 then (failed_view output_dir logs1, snd r)
           else stage_amalgamate e output_dir neg_summary
                  (os_path_join output_dir ''peakfilter_positive_summary.csv'') logs1 (snd r)
      else stage_amalgamate e output_dir neg_summary [] logs w)"

definition stage_negative ::
  "env \<Rightarrow> string \<Rightarrow> bool \<Rightarrow> bool \<Rightarrow> string \<Rightarrow> string \<Rightarrow> world \<Rightarrow> response \<times> world" where
  "stage_negative e output_dir verbose timestamp neg_input pos_input w =
     (if neg_input \<noteq> [] then
        let args = peakfilter_args neg_input (CONFIG_DIR e @ ''/peakfilter.json'') output_dir
                     verbose timestamp;
            r = run_python_module e ''LipidFinder.run_peakfilter'' args w;
            logs1 = [mk_log_entry ''PeakFilter (negative)'' (fst (fst r)) (snd (fst r))]
        in if returncode (snd (fst r)) \<noteq> 0 then (failed_view output_dir logs1, snd r)
           else stage_positive e output_dir verbose timestamp pos_input
                  (os_path_join output_dir ''peakfilter_negative_summary.csv'') logs1 (snd r)
      else stage_positive e output_dir verbose timestamp pos_input [] [] w)"

text \<open>The check of the parameter files, then the stages.\<close>

definition pipeline_preflight ::
  "env \<Rightarrow> string \<Rightarrow> bool \<Rightarrow> bool \<Rightarrow> string \<Rightarrow> string \<Rightarrow> world \<Rightarrow> response \<times> world" where
  "pipeline_preflight e output_dir verbose timestamp neg_input pos_input w =
     (let missing = missing_parameters e (on_disk w) neg_input pos_input
      in if missing \<noteq> [] then
           (Redirect ''pipeline''
              (''Missing parameters for: '' @ join '', '' missing @ ''. Configure them under Params.''),
            w)
         else stage_negative e output_dir verbose timestamp neg_input pos_input w)"

definition run_pipeline_full :: "env \<Rightarrow> form \<Rightarrow> world \<Rightarrow> response \<times> world" where
  "run_pipeline_full e f w =
     (let neg_input = form_get f ''neg_input'' [];
          pos_input = form_get f ''pos_input'' [];
          output_dir = form_get f ''output_dir'' [];
          verbose = form_flag f ''verbose'';
          timestamp = form_flag f ''timestamp''
      in if output_dir = [] then
           (Redirect ''pipeline'' ''Please provide an output directory for the pipeline.'', w)
         else if neg_input = [] \<and> pos_input = [] then
           let auto = pipeline_auto_inputs e (on_disk w)
           in if fst auto = [] \<and> snd auto = [] then
                (Redirect ''pipeline'' ''No inputs found. Run XCMS first to generate aligned CSVs.'', w)
              else pipeline_preflight e output_dir verbose timestamp (fst auto) (snd auto) w
         else pipeline_preflight e output_dir verbose timestamp neg_input pos_input w)"

subsection \<open>What a run of stages leaves\<close>

text \<open>
  \<open>stage_outcome logs w v w'\<close>: the page \<open>v\<close> and the world \<open>w'\<close> continue the log \<open>logs\<close>
  and the world \<open>w\<close> by at least one stage; every new log entry is the command of one new
  subprocess, in order; every new entry but the last is a success; and the success flag of
  the page is that of the last entry.
\<close>

definition stage_outcome :: "log_entry list \<Rightarrow> world \<Rightarrow> pipeline_view \<Rightarrow> world \<Rightarrow> bool" where
  "stage_outcome logs w v w' =
     (let entries = drop (length logs) (pv_logs v);
          cmds = drop (length (spawned w)) (spawned w')
      in pv_logs v = logs @ entries \<and> spawned w' = spawned w @ cmds \<and> entries \<noteq> [] \<and>
         map command entries = map (join '' '') cmds \<and>
         list_all success (butlast entries) \<and>
         pv_success v = success (last entries))"

text \<open>The success flag and the log of a pipeline page.\<close>

definition page_success :: "response \<Rightarrow> bool" where
  "page_success resp = (case resp of Pipeline_Visualize v \<Rightarrow> pv_success v | other \<Rightarrow> False)"

definition page_logs :: "response \<Rightarrow> log_entry list" where
  "page_logs resp = (case resp of Pipeline_Visualize v \<Rightarrow> pv_logs v | other \<Rightarrow> [])"

subsection \<open>An installation to run the routes on\<close>

text \<open>
  An installation under \<^verbatim>\<open>/app\<close> with the three parameter files saved, two aligned CSVs
  and no state document; stage executables that succeed, or fail, and leave the disk alone.
\<close>

definition proc_exit :: "int \<Rightarrow> proc" where
  "proc_exit n = \<lparr>returncode = n, stdout = [], stderr = []\<rparr>"

definition example_env :: env where
  "example_env =
     \<lparr>base_dir = ''/app'', sys_executable = ''python'',
      subprocess_run = (\<lambda>cmd d. (proc_exit 0, d)),
      rscript_run = (\<lambda>cmd inp d. Some (proc_exit 0, d)),
      read_category_counts = (\<lambda>d p. [])\<rparr>"

definition failing_env :: env where
  "failing_env = example_env\<lparr>subprocess_run := (\<lambda>cmd d. (proc_exit 1, d))\<rparr>"

definition example_files :: "string \<rightharpoonup> disk_file" where
  "example_files =
     [''/app/webapp/config/peakfilter.json'' \<mapsto> Json (JObj []),
      ''/app/webapp/config/amalgamator.json'' \<mapsto> Json (JObj []),
      ''/app/webapp/config/mssearch.json'' \<mapsto> Json (JObj [(''plotCategories'', JBool False)]),
      ''/data/neg.csv'' \<mapsto> Data,
      ''/data/pos.csv'' \<mapsto> Data]"

definition example_disk :: disk where
  "example_disk = \<lparr>state_json = Absent, files = example_files, unwritable = {}\<rparr>"

definition example_world :: world where
  "example_world = \<lparr>on_disk = example_disk, spawned = []\<rparr>"

text \<open>Both polarity inputs given, output directory \<^verbatim>\<open>/out\<close>.\<close>

definition example_form :: form where
  "example_form =
     [''neg_input'' \<mapsto> ''/data/neg.csv'', ''pos_input'' \<mapsto> ''/data/pos.csv'',
      ''output_dir'' \<mapsto> ''/out'']"

text \<open>Requests to the stage routes.\<close>

definition peakfilter_form :: form where
  "peakfilter_form = [''input_path'' \<mapsto> ''/data/neg.csv'', ''output_dir'' \<mapsto> ''/out'']"

definition amalgamator_form :: form where
  "amalgamator_form =
     [''neg_file'' \<mapsto> ''/out/peakfilter_negative_summary.csv'',
      ''pos_file'' \<mapsto> ''/out/peakfilter_positive_summary.csv'',
      ''output_dir'' \<mapsto> ''/out'']"

text \<open>
  A state that still names an amalgamated file that is gone, beside a negative summary
  that exists.
\<close>

definition stale_world :: world where
  "stale_world =
     \<lparr>on_disk =
        \<lparr>state_json = Stored
           [(''amalgamator_last_csv'', ''/out/amalgamated.csv''),
            (''peakfilter_last_negative_summary'', ''/out/peakfilter_negative_summary.csv'')],
         files = example_files(''/out/peakfilter_negative_summary.csv'' \<mapsto> Data),
         unwritable = {}\<rparr>,
      spawned = []\<rparr>"

text \<open>An installation where only the filter parameters were saved.\<close>

definition unconfigured_world :: world where
  "unconfigured_world =
     \<lparr>on_disk =
        \<lparr>state_json = Absent,
         files = [''/app/webapp/config/peakfilter.json'' \<mapsto> Json (JObj []),
                  ''/data/neg.csv'' \<mapsto> Data, ''/data/pos.csv'' \<mapsto> Data],
         unwritable = {}\<rparr>,
      spawned = []\<rparr>"

text \<open>A state with one aligned CSV whose name tells no polarity.\<close>

definition generic_world :: world where
  "generic_world =
     \<lparr>on_disk =
        \<lparr>state_json = Stored [(''xcms_last_csv'', ''/data/aligned.csv'')],
         files = example_files(''/data/aligned.csv'' \<mapsto> Data),
         unwritable = {}\<rparr>,
      spawned = []\<rparr>"

section \<open>Properties\<close>

subsection \<open>Merging keyword arguments\<close>

lemma update_commute_present:
  "k1 \<in> fst ` set s \<Longrightarrow> k1 \<noteq> k \<Longrightarrow>
   AList.update k1 x1 (AList.update k x s) = AList.update k x (AList.update k1 x1 s)"
  by (induction s) auto

lemma keys_update: "fst ` set (AList.update k v al) = insert k (fst ` set al)"
  by (induction al) auto

lemma merge_kwargs_append:
  "merge_kwargs (kw1 @ kw2) st = merge_kwargs kw2 (merge_kwargs kw1 st)"
  by (induction kw1 arbitrary: st) (auto split: option.splits)

lemma merge_kwargs_keys:
  "fst ` set st \<subseteq> fst ` set (merge_kwargs kw st)"
proof (induction kw arbitrary: st)
  case Nil
  then show ?case by simp
next
  case (Cons a kw)
  obtain k v where a: "a = (k, v)" by (cases a)
  show ?case
  proof (cases v)
    case None
    then show ?thesis using Cons a by simp
  next
    case (Some x)
    have "fst ` set st \<subseteq> fst ` set (AList.update k x st)" by (auto simp: keys_update)
    also have "\<dots> \<subseteq> fst ` set (merge_kwargs kw (AList.update k x st))" by (rule Cons.IH)
    finally show ?thesis using a Some by simp
  qed
qed

lemma merge_kwargs_has_key:
  "(k, Some x) \<in> set kw \<Longrightarrow> k \<in> fst ` set (merge_kwargs kw st)"
proof (induction kw arbitrary: st)
  case Nil
  then show ?case by simp
next
  case (Cons a kw)
  show ?case
  proof (cases "a = (k, Some x)")
    case True
    have "k \<in> fst ` set (AList.update k x st)" by (simp add: keys_update)
    then have "k \<in> fst ` set (merge_kwargs kw (AList.update k x st))"
      using merge_kwargs_keys by blast
    then show ?thesis using True by simp
  next
    case False
    then show ?thesis using Cons by (cases a) auto
  qed
qed

lemma update_merge_kwargs_absorb:
  "(\<And>k1 x1. (k1, Some x1) \<in> set kw \<Longrightarrow> k1 \<in> fst ` set s) \<Longrightarrow>
   AList.update k x (merge_kwargs kw (AList.update k x s)) = AList.update k x (merge_kwargs kw s)"
proof (induction kw arbitrary: s)
  case Nil
  then show ?case by simp
next
  case (Cons a kw)
  obtain k1 v1 where a: "a = (k1, v1)" by (cases a)
  show ?case
  proof (cases v1)
    case None
    then show ?thesis using Cons a by simp
  next
    case (Some x1)
    have in_s: "k1 \<in> fst ` set s" using Cons.prems [of k1 x1] a Some by simp
    have keys: "\<And>k2 x2. (k2, Some x2) \<in> set kw \<Longrightarrow> k2 \<in> fst ` set (AList.update k1 x1 s)"
      using Cons.prems by (auto simp: keys_update)
    show ?thesis
    proof (cases "k1 = k")
      case True
      then show ?thesis using a Some by simp
    next
      case False
      have "AList.update k1 x1 (AList.update k x s) = AList.update k x (AList.update k1 x1 s)"
        using in_s False by (rule update_commute_present)
      then show ?thesis using a Some Cons.IH [OF keys] by simp
    qed
  qed
qed

lemma merge_kwargs_idem: "merge_kwargs kw (merge_kwargs kw st) = merge_kwargs kw st"
proof (induction kw arbitrary: st rule: rev_induct)
  case Nil
  then show ?case by simp
next
  case (snoc a kw)
  obtain k v where a: "a = (k, v)" by (cases a)
  show ?case
  proof (cases v)
    case None
    then show ?thesis using snoc a by (simp add: merge_kwargs_append)
  next
    case (Some x)
    have "AList.update k x (merge_kwargs kw (AList.update k x (merge_kwargs kw st)))
        = AList.update k x (merge_kwargs kw (merge_kwargs kw st))"
      by (rule update_merge_kwargs_absorb) (rule merge_kwargs_has_key)
    then show ?thesis using snoc a Some by (simp add: merge_kwargs_append)
  qed
qed

lemma merge_kwargs_other:
  "k \<notin> fst ` set kw \<Longrightarrow> map_of (merge_kwargs kw st) k = map_of st k"
  by (induction kw arbitrary: st) (auto simp: update_conv' split: option.splits)

lemma merge_kwargs_nulls:
  "merge_kwargs (filter (\<lambda>kv. snd kv \<noteq> None) kw) st = merge_kwargs kw st"
  by (induction kw arbitrary: st) (auto split: option.splits)

lemma read_state_update_state:
  "read_state (update_state e kw d) =
     (if STATE_PATH e \<in> unwritable d then read_state d else merge_kwargs kw (read_state d))"
  by (simp add: update_state_def dump_state_file_def read_state_def load_state_file_def)

lemma update_state_idem: "update_state e kw (update_state e kw d) = update_state e kw d"
  by (simp add: update_state_def dump_state_file_def read_state_def load_state_file_def merge_kwargs_idem)

subsection \<open>Subprocesses and the stage routes\<close>

lemma run_python_module_eq:
  "run_python_module e m args w =
     ((python_cmd e m args, fst (subprocess_run e (python_cmd e m args) (on_disk w))),
      after_spawn e (python_cmd e m args) w)"
  by (simp add: run_python_module_def after_spawn_def Let_def)

lemma after_spawn_last: "last (spawned (after_spawn e cmd w)) = cmd"
  by (simp add: after_spawn_def)

lemma after_spawn_fields:
  "spawned (after_spawn e cmd w) = spawned w @ [cmd]"
  "on_disk (after_spawn e cmd w) = snd (subprocess_run e cmd (on_disk w))"
  by (simp_all add: after_spawn_def)

lemma wrote_nothing_refl: "wrote_nothing e w w"
  by (simp add: wrote_nothing_def)

lemma wrote_nothing_after_spawn: "wrote_nothing e w (after_spawn e cmd w)"
  by (simp add: wrote_nothing_def after_spawn_last)

lemma succeeded_simps:
  "succeeded (Redirect t m) = False"
  "succeeded (Run_Result r) = rr_success r"
  by (simp_all add: succeeded_def)

lemma route_cases:
  assumes "R = (if a then (Redirect t m1, w) else if b then (Redirect t m2, w) else X)"
  obtains (redirect) msg where "R = (Redirect t msg, w)" | (exec) "R = X"
  using assms by (cases a; cases b; simp)

lemma run_amalgamator_cases:
  obtains (redirect) msg where "run_amalgamator e f w = (Redirect ''pipeline'' msg, w)"
    | (exec) n p pp where
        "run_amalgamator e f w = amalgamator_exec e n p pp (form_get f ''output_dir'' []) w"
proof -
  note eq = run_amalgamator_def [of e f w, unfolded Let_def]
  show thesis by (rule route_cases [OF eq]) (erule redirect, erule exec)
qed

lemma peakfilter_exec_quiet:
  "wrote_nothing e w (snd (peakfilter_exec e i pp [] v t w))"
  by (simp add: peakfilter_exec_def Let_def run_python_module_eq peakfilter_hint_def
      wrote_nothing_after_spawn)

lemma run_peakfilter_cases:
  obtains (redirect) msg where "run_peakfilter e f w = (Redirect ''pipeline'' msg, w)"
    | (exec) i pp where
        "run_peakfilter e f w =
           peakfilter_exec e i pp (form_get f ''output_dir'' []) (form_flag f ''verbose'')
             (form_flag f ''timestamp'') w"
proof -
  note eq = run_peakfilter_def [of e f w, unfolded Let_def]
  show thesis by (rule route_cases [OF eq]) (erule redirect, erule exec)
qed

lemma amalgamator_exec_quiet:
  "output_dir = [] \<or> \<not> succeeded (fst (amalgamator_exec e n p pp output_dir w)) \<Longrightarrow>
     wrote_nothing e w (snd (amalgamator_exec e n p pp output_dir w))"
  by (auto simp add: amalgamator_exec_def Let_def run_python_module_eq succeeded_def
      wrote_nothing_after_spawn)

lemma amalgamator_exec_records:
  "output_dir \<noteq> [] \<Longrightarrow> succeeded (fst (amalgamator_exec e n p pp output_dir w)) \<Longrightarrow>
     on_disk (snd (amalgamator_exec e n p pp output_dir w)) =
       update_state e
          [(''amalgamator_last_csv'', Some (os_path_join output_dir ''amalgamated.csv''))]
          (on_disk (after_spawn e (last (spawned (snd (amalgamator_exec e n p pp output_dir w)))) w))"
  by (simp add: amalgamator_exec_def Let_def run_python_module_eq succeeded_def after_spawn_fields)

lemma run_amalgamator_quiet:
  assumes "form_get f ''output_dir'' [] = [] \<or> \<not> succeeded (fst (run_amalgamator e f w))"
  shows "wrote_nothing e w (snd (run_amalgamator e f w))"
proof (cases rule: run_amalgamator_cases [of e f w])
  case (redirect msg)
  then show ?thesis by (simp add: wrote_nothing_refl)
next
  case (exec n p pp)
  then show ?thesis using assms amalgamator_exec_quiet by simp
qed

lemma run_amalgamator_records:
  assumes "form_get f ''output_dir'' [] \<noteq> []" "succeeded (fst (run_amalgamator e f w))"
  shows "on_disk (snd (run_amalgamator e f w)) =
       update_state e
          [(''amalgamator_last_csv'',
            Some (os_path_join (form_get f ''output_dir'' []) ''amalgamated.csv''))]
          (on_disk (after_spawn e (last (spawned (snd (run_amalgamator e f w)))) w))"
proof (cases rule: run_amalgamator_cases [of e f w])
  case (redirect msg)
  then show ?thesis using assms by (simp add: succeeded_simps)
next
  case (exec n p pp)
  then show ?thesis using assms amalgamator_exec_records by simp
qed

lemma run_peakfilter_quiet:
  assumes "form_get f ''output_dir'' [] = []"
  shows "wrote_nothing e w (snd (run_peakfilter e f w))"
proof (cases rule: run_peakfilter_cases [of e f w])
  case (redirect msg)
  then show ?thesis by (simp add: wrote_nothing_refl)
next
  case (exec i pp)
  then show ?thesis using assms peakfilter_exec_quiet by simp
qed

subsection \<open>The stages of the full pipeline\<close>

lemma stage_outcomeI:
  assumes "pv_logs v = logs @ entries" "spawned w' = spawned w @ cmds" "entries \<noteq> []"
    "map command entries = map (join '' '') cmds" "list_all success (butlast entries)"
    "pv_success v = success (last entries)"
  shows "stage_outcome logs w v w'"
  using assms by (simp add: stage_outcome_def)

lemma stage_outcomeE:
  assumes "stage_outcome logs w v w'"
  obtains entries cmds where "pv_logs v = logs @ entries" "spawned w' = spawned w @ cmds"
    "entries \<noteq> []" "map command entries = map (join '' '') cmds"
    "list_all success (butlast entries)" "pv_success v = success (last entries)"
  using assms unfolding stage_outcome_def Let_def by blast

lemma mk_log_entry_fields:
  "success (mk_log_entry t c p) = (returncode p = 0)"
  "command (mk_log_entry t c p) = join '' '' c"
  "title (mk_log_entry t c p) = t"
  by (simp_all add: mk_log_entry_def)

text \<open>A stage that failed: its entry is the last one.\<close>

lemma stage_outcome_failed:
  assumes "failed_view out (logs @ [entry]) = Pipeline_Visualize v"
    "\<not> success entry" "command entry = join '' '' cmd"
  shows "stage_outcome logs w v (after_spawn e cmd w)"
proof (rule stage_outcomeI [where entries = "[entry]" and cmds = "[cmd]"])
  show "pv_logs v = logs @ [entry]" using assms(1) by (auto simp: failed_view_def)
  show "pv_success v = success (last [entry])" using assms(1,2) by (auto simp: failed_view_def)
qed (simp_all add: after_spawn_fields assms)

text \<open>A stage that succeeded, followed by the outcome of the stages after it.\<close>

lemma stage_outcome_step:
  assumes "stage_outcome (logs @ [entry]) (after_spawn e cmd w) v w'"
    "success entry" "command entry = join '' '' cmd"
  shows "stage_outcome logs w v w'"
proof -
  from assms(1) obtain entries cmds where
    1: "pv_logs v = (logs @ [entry]) @ entries" and
    2: "spawned w' = spawned (after_spawn e cmd w) @ cmds" and
    3: "entries \<noteq> []" and
    4: "map command entries = map (join '' '') cmds" and
    5: "list_all success (butlast entries)" and
    6: "pv_success v = success (last entries)"
    by (rule stage_outcomeE)
  show ?thesis
  proof (rule stage_outcomeI [where entries = "entry # entries" and cmds = "cmd # cmds"])
    show "pv_logs v = logs @ entry # entries" using 1 by simp
    show "spawned w' = spawned w @ cmd # cmds" using 2 by (simp add: after_spawn_fields)
    show "map command (entry # entries) = map (join '' '') (cmd # cmds)" using 4 assms(3) by simp
    show "list_all success (butlast (entry # entries))" using 3 5 assms(2) by simp
    show "pv_success v = success (last (entry # entries))" using 3 6 by simp
  qed simp
qed

lemma pipeline_aggregate_view:
  assumes "pipeline_aggregate e out obj am logs w = (Pipeline_Visualize v, w')"
  shows "pv_success v \<and> pv_logs v = logs \<and> w' = w"
  using assms by (auto simp: pipeline_aggregate_def Let_def split: sum.splits)

lemma stage_search_outcome:
  assumes "stage_search e out ns ps am logs w = (Pipeline_Visualize v, w')"
  shows "stage_outcome logs w v w'"
proof -
  from assms obtain obj d where
    d: "dump_ms_params e obj (on_disk w) = Inr d" and
    inp: "py_or am (py_or ns ps) \<noteq> []" and
    run: "(let args = [''-i'', py_or am (py_or ns ps), ''-p'', tmp_ms_params e, ''-o'', out];
               r = run_python_module e ''LipidFinder.run_mssearch'' args (w\<lparr>on_disk := d\<rparr>);
               logs1 = logs @ [mk_log_entry ''MSSearch'' (fst (fst r)) (snd (fst r))]
           in if returncode (snd (fst r)) \<noteq> 0 then (failed_view out logs1, snd r)
              else pipeline_aggregate e out obj am logs1 (snd r)) = (Pipeline_Visualize v, w')"
    by (auto simp: stage_search_def Let_def split: sum.splits if_splits)
  let ?cmd = "python_cmd e ''LipidFinder.run_mssearch''
      [''-i'', py_or am (py_or ns ps), ''-p'', tmp_ms_params e, ''-o'', out]"
  let ?p = "fst (subprocess_run e ?cmd d)"
  let ?entry = "mk_log_entry ''MSSearch'' ?cmd ?p"
  let ?w1 = "after_spawn e ?cmd (w\<lparr>on_disk := d\<rparr>)"
  have sp: "spawned ?w1 = spawned w @ [?cmd]" by (simp add: after_spawn_fields)
  show ?thesis
  proof (cases "returncode ?p = 0")
    case False
    with run have "failed_view out (logs @ [?entry]) = Pipeline_Visualize v" "w' = ?w1"
      by (simp_all add: Let_def run_python_module_eq)
    then have "stage_outcome logs (w\<lparr>on_disk := d\<rparr>) v w'"
      using False stage_outcome_failed [of out logs ?entry v ?cmd "w\<lparr>on_disk := d\<rparr>" e]
      by (simp add: mk_log_entry_fields)
    then show ?thesis by (simp add: stage_outcome_def)
  next
    case True
    with run have "pipeline_aggregate e out obj am (logs @ [?entry]) ?w1 = (Pipeline_Visualize v, w')"
      by (simp add: Let_def run_python_module_eq)
    then have v: "pv_success v" "pv_logs v = logs @ [?entry]" "w' = ?w1"
      using pipeline_aggregate_view by blast+
    show ?thesis
      by (rule stage_outcomeI [where entries = "[?entry]" and cmds = "[?cmd]"])
         (simp_all add: v sp mk_log_entry_fields True)
  qed
qed

lemma run_stage_outcome:
  assumes run: "(if returncode p \<noteq> 0 then (failed_view out (logs @ [entry]), after_spawn e cmd w)
                 else nxt (logs @ [entry]) (after_spawn e cmd w)) = (Pipeline_Visualize v, w')"
    and nxt: "\<And>v w'. nxt (logs @ [entry]) (after_spawn e cmd w) = (Pipeline_Visualize v, w') \<Longrightarrow>
                stage_outcome (logs @ [entry]) (after_spawn e cmd w) v w'"
    and entry: "success entry = (returncode p = 0)" "command entry = join '' '' cmd"
  shows "stage_outcome logs w v w'"
proof (cases "returncode p = 0")
  case True
  with run have "nxt (logs @ [entry]) (after_spawn e cmd w) = (Pipeline_Visualize v, w')" by simp
  then have "stage_outcome (logs @ [entry]) (after_spawn e cmd w) v w'" by (rule nxt)
  then show ?thesis using True entry by (intro stage_outcome_step [of logs entry e cmd w v w']) simp_all
next
  case False
  with run have "failed_view out (logs @ [entry]) = Pipeline_Visualize v" "w' = after_spawn e cmd w"
    by simp_all
  then show ?thesis using False entry stage_outcome_failed [of out logs entry v cmd w e] by simp
qed

lemma stage_amalgamate_outcome:
  assumes "stage_amalgamate e out ns ps logs w = (Pipeline_Visualize v, w')"
  shows "stage_outcome logs w v w'"
proof (cases "ns \<noteq> [] \<and> ps \<noteq> []")
  case False
  with assms have "stage_search e out ns ps [] logs w = (Pipeline_Visualize v, w')"
    by (auto simp: stage_amalgamate_def)
  then show ?thesis by (rule stage_search_outcome)
next
  case True
  let ?cmd = "python_cmd e ''LipidFinder.run_amalgamator''
      [''-neg'', ns, ''-pos'', ps, ''-p'', CONFIG_DIR e @ ''/amalgamator.json'', ''-o'', out]"
  let ?p = "fst (subprocess_run e ?cmd (on_disk w))"
  let ?entry = "mk_log_entry ''Amalgamator'' ?cmd ?p"
  have eq: "stage_amalgamate e out ns ps logs w =
      (if returncode ?p \<noteq> 0
              then (failed_view out (logs @ [?entry]), after_spawn e ?cmd w)
              else stage_search e out ns ps (os_path_join out ''amalgamated.csv'')
                     (logs @ [?entry]) (after_spawn e ?cmd w))"
    using True by (simp add: stage_amalgamate_def Let_def run_python_module_eq)
  note run = assms [unfolded eq]
  show ?thesis
    by (rule run_stage_outcome
          [where nxt = "stage_search e out ns ps (os_path_join out ''amalgamated.csv'')"
             and p = ?p and entry = ?entry and cmd = ?cmd and logs = logs, OF run])
       (erule stage_search_outcome, simp_all add: mk_log_entry_fields)
qed

lemma stage_positive_outcome:
  assumes "stage_positive e out vb ts pos ns logs w = (Pipeline_Visualize v, w')"
  shows "stage_outcome logs w v w'"
proof (cases "pos \<noteq> []")
  case False
  with assms have "stage_amalgamate e out ns [] logs w = (Pipeline_Visualize v, w')"
    by (simp add: stage_positive_def)
  then show ?thesis by (rule stage_amalgamate_outcome)
next
  case True
  let ?cmd = "python_cmd e ''LipidFinder.run_peakfilter''
      (peakfilter_args pos (CONFIG_DIR e @ ''/peakfilter.json'') out vb ts)"
  let ?p = "fst (subprocess_run e ?cmd (on_disk w))"
  let ?entry = "mk_log_entry ''PeakFilter (positive)'' ?cmd ?p"
  have eq: "stage_positive e out vb ts pos ns logs w =
      (if returncode ?p \<noteq> 0
              then (failed_view out (logs @ [?entry]), after_spawn e ?cmd w)
              else stage_amalgamate e out ns (os_path_join out ''peakfilter_positive_summary.csv'')
                     (logs @ [?entry]) (after_spawn e ?cmd w))"
    using True by (simp add: stage_positive_def Let_def run_python_module_eq)
  note run = assms [unfolded eq]
  show ?thesis
    by (rule run_stage_outcome
          [where nxt = "stage_amalgamate e out ns (os_path_join out ''peakfilter_positive_summary.csv'')"
             and p = ?p and entry = ?entry and cmd = ?cmd and logs = logs, OF run])
       (erule stage_amalgamate_outcome, simp_all add: mk_log_entry_fields)
qed

lemma stage_negative_outcome:
  assumes "stage_negative e out vb ts neg pos w = (Pipeline_Visualize v, w')"
  shows "stage_outcome [] w v w'"
proof (cases "neg \<noteq> []")
  case False
  with assms have "stage_positive e out vb ts pos [] [] w = (Pipeline_Visualize v, w')"
    by (simp add: stage_negative_def)
  then show ?thesis by (rule stage_positive_outcome)
next
  case True
  let ?cmd = "python_cmd e ''LipidFinder.run_peakfilter''
      (peakfilter_args neg (CONFIG_DIR e @ ''/peakfilter.json'') out vb ts)"
  let ?p = "fst (subprocess_run e ?cmd (on_disk w))"
  let ?entry = "mk_log_entry ''PeakFilter (negative)'' ?cmd ?p"
  have eq: "stage_negative e out vb ts neg pos w =
      (if returncode ?p \<noteq> 0
              then (failed_view out ([] @ [?entry]), after_spawn e ?cmd w)
              else stage_positive e out vb ts pos (os_path_join out ''peakfilter_negative_summary.csv'')
                     ([] @ [?entry]) (after_spawn e ?cmd w))"
    using True by (simp add: stage_negative_def Let_def run_python_module_eq)
  note run = assms [unfolded eq]
  show ?thesis
    by (rule run_stage_outcome
          [where nxt = "stage_positive e out vb ts pos (os_path_join out ''peakfilter_negative_summary.csv'')"
             and p = ?p and entry = ?entry and cmd = ?cmd and logs = "[]", OF run])
       (erule stage_positive_outcome, simp_all add: mk_log_entry_fields)
qed

lemma pipeline_preflight_outcome:
  assumes "pipeline_preflight e out vb ts neg pos w = (Pipeline_Visualize v, w')"
  shows "stage_outcome [] w v w'"
  using assms stage_negative_outcome
  by (auto simp: pipeline_preflight_def Let_def split: if_splits)

lemma run_pipeline_full_outcome:
  assumes "run_pipeline_full e f w = (Pipeline_Visualize v, w')"
  shows "stage_outcome [] w v w'"
  using assms pipeline_preflight_outcome
  by (auto simp: run_pipeline_full_def Let_def split: if_splits)

lemma list_all_butlast_last:
  "xs \<noteq> [] \<Longrightarrow> list_all P xs = (list_all P (butlast xs) \<and> P (last xs))"
  by (induction xs) auto

lemma stage_negative_first:
  assumes "stage_negative e out vb ts neg pos w = (Pipeline_Visualize v, w')" "neg \<noteq> []"
  shows "title (hd (pv_logs v)) = ''PeakFilter (negative)''"
proof -
  let ?cmd = "python_cmd e ''LipidFinder.run_peakfilter''
      (peakfilter_args neg (CONFIG_DIR e @ ''/peakfilter.json'') out vb ts)"
  let ?p = "fst (subprocess_run e ?cmd (on_disk w))"
  let ?entry = "mk_log_entry ''PeakFilter (negative)'' ?cmd ?p"
  have eq: "stage_negative e out vb ts neg pos w =
      (if returncode ?p \<noteq> 0
       then (failed_view out [?entry], after_spawn e ?cmd w)
       else stage_positive e out vb ts pos (os_path_join out ''peakfilter_negative_summary.csv'')
              [?entry] (after_spawn e ?cmd w))"
    using assms(2) by (simp add: stage_negative_def Let_def run_python_module_eq)
  note run = assms(1) [unfolded eq]
  have "hd (pv_logs v) = ?entry"
  proof (cases "returncode ?p = 0")
    case False
    with run show ?thesis by (auto simp: failed_view_def)
  next
    case True
    with run have "stage_outcome [?entry] (after_spawn e ?cmd w) v w'"
      by (simp add: stage_positive_outcome)
    then show ?thesis by (auto elim: stage_outcomeE)
  qed
  then show ?thesis by (simp add: mk_log_entry_fields)
qed

lemma run_pipeline_full_first:
  assumes "run_pipeline_full e f w = (Pipeline_Visualize v, w')" "form_get f ''neg_input'' [] \<noteq> []"
  shows "title (hd (pv_logs v)) = ''PeakFilter (negative)''"
proof -
  from assms have "stage_negative e (form_get f ''output_dir'' []) (form_flag f ''verbose'')
      (form_flag f ''timestamp'') (form_get f ''neg_input'' []) (form_get f ''pos_input'' []) w
      = (Pipeline_Visualize v, w')"
    by (auto simp: run_pipeline_full_def pipeline_preflight_def Let_def split: if_splits)
  then show ?thesis using assms(2) by (rule stage_negative_first)
qed

lemma stage_search_spawn:
  assumes "stage_search e out ns ps am logs w = (Pipeline_Visualize v, w')"
  obtains obj d where "ms_params_overlay e (on_disk w) = Inr obj"
    "dump_ms_params e obj (on_disk w) = Inr d"
    "w' = after_spawn e (python_cmd e ''LipidFinder.run_mssearch''
            [''-i'', py_or am (py_or ns ps), ''-p'', tmp_ms_params e, ''-o'', out])
            (w\<lparr>on_disk := d\<rparr>)"
proof -
  from assms obtain obj d where
    o: "ms_params_overlay e (on_disk w) = Inr obj" and
    d: "dump_ms_params e obj (on_disk w) = Inr d" and
    run: "(let args = [''-i'', py_or am (py_or ns ps), ''-p'', tmp_ms_params e, ''-o'', out];
               r = run_python_module e ''LipidFinder.run_mssearch'' args (w\<lparr>on_disk := d\<rparr>);
               logs1 = logs @ [mk_log_entry ''MSSearch'' (fst (fst r)) (snd (fst r))]
           in if returncode (snd (fst r)) \<noteq> 0 then (failed_view out logs1, snd r)
              else pipeline_aggregate e out obj am logs1 (snd r)) = (Pipeline_Visualize v, w')"
    by (auto simp: stage_search_def Let_def split: sum.splits if_splits)
  let ?cmd = "python_cmd e ''LipidFinder.run_mssearch''
      [''-i'', py_or am (py_or ns ps), ''-p'', tmp_ms_params e, ''-o'', out]"
  have "w' = after_spawn e ?cmd (w\<lparr>on_disk := d\<rparr>)"
  proof (cases "returncode (fst (subprocess_run e ?cmd d)) = 0")
    case False
    with run show ?thesis by (simp add: Let_def run_python_module_eq)
  next
    case True
    with run have "pipeline_aggregate e out obj am
        (logs @ [mk_log_entry ''MSSearch'' ?cmd (fst (subprocess_run e ?cmd d))])
        (after_spawn e ?cmd (w\<lparr>on_disk := d\<rparr>)) = (Pipeline_Visualize v, w')"
      by (simp add: Let_def run_python_module_eq)
    then show ?thesis using pipeline_aggregate_view by blast
  qed
  with o d show ?thesis by (rule that)
qed

lemma snd_pipeline_aggregate: "snd (pipeline_aggregate e out obj am logs w) = w"
  by (simp add: pipeline_aggregate_def Let_def split: sum.splits)

text \<open>
  A quantity of the disk that no stage subprocess and no overlay dump changes is the same
  after a full pipeline run.
\<close>

lemma pipeline_frame:
  fixes g :: "disk \<Rightarrow> 'a"
  assumes sub: "\<And>cmd d. g (snd (subprocess_run e cmd d)) = g d"
    and dump: "\<And>obj d d'. dump_ms_params e obj d = Inr d' \<Longrightarrow> g d' = g d"
  shows "g (on_disk (snd (run_pipeline_full e f w))) = g (on_disk w)"
proof -
  have spawn: "g (on_disk (after_spawn e cmd w)) = g (on_disk w)" for cmd w
    by (simp add: after_spawn_fields sub)
  have search: "g (on_disk (snd (stage_search e out ns ps am logs w))) = g (on_disk w)"
    for out ns ps am logs w
    by (auto simp: stage_search_def Let_def run_python_module_eq spawn snd_pipeline_aggregate
        dest: dump split: sum.splits)
  have amalgamate: "g (on_disk (snd (stage_amalgamate e out ns ps logs w))) = g (on_disk w)"
    for out ns ps logs w
    by (simp add: stage_amalgamate_def Let_def run_python_module_eq spawn search)
  have positive: "g (on_disk (snd (stage_positive e out vb ts pos ns logs w))) = g (on_disk w)"
    for out vb ts pos ns logs w
    by (simp add: stage_positive_def Let_def run_python_module_eq spawn amalgamate)
  have negative: "g (on_disk (snd (stage_negative e out vb ts neg pos w))) = g (on_disk w)"
    for out vb ts neg pos w
    by (simp add: stage_negative_def Let_def run_python_module_eq spawn positive)
  have preflight: "g (on_disk (snd (pipeline_preflight e out vb ts neg pos w))) = g (on_disk w)"
    for out vb ts neg pos w
    by (simp add: pipeline_preflight_def Let_def negative)
  show ?thesis
    by (simp add: run_pipeline_full_def Let_def preflight)
qed

lemma pipeline_keeps_state:
  assumes "\<And>cmd d. state_json (snd (subprocess_run e cmd d)) = state_json d"
  shows "state_json (on_disk (snd (run_pipeline_full e f w))) = state_json (on_disk w)"
  using assms by (rule pipeline_frame) (auto simp: dump_ms_params_def split: if_splits)

lemma pipeline_keeps_mssearch_json:
  assumes "\<And>cmd d. files (snd (subprocess_run e cmd d)) (CONFIG_DIR e @ ''/mssearch.json'')
                      = files d (CONFIG_DIR e @ ''/mssearch.json'')"
  shows "files (on_disk (snd (run_pipeline_full e f w))) (CONFIG_DIR e @ ''/mssearch.json'')
       = files (on_disk w) (CONFIG_DIR e @ ''/mssearch.json'')"
  using assms
  by (rule pipeline_frame [where g = "\<lambda>d. files d (CONFIG_DIR e @ ''/mssearch.json'')"])
     (auto simp: dump_ms_params_def tmp_ms_params_def split: if_splits)

lemma os_path_join_nonempty: "b \<noteq> [] \<Longrightarrow> os_path_join a b \<noteq> []"
  by (auto simp: os_path_join_def)

lemma failed_view_not_success:
  "failed_view out logs = Pipeline_Visualize v \<Longrightarrow> \<not> pv_success v"
  by (auto simp: failed_view_def)

lemma stage_search_success:
  assumes "stage_search e out ns ps am logs w = (Pipeline_Visualize v, w')"
  shows "spawned w' = spawned w @ [python_cmd e ''LipidFinder.run_mssearch''
            [''-i'', py_or am (py_or ns ps), ''-p'', tmp_ms_params e, ''-o'', out]]"
  using assms by (rule stage_search_spawn) (simp add: after_spawn_fields)

lemma stage_amalgamate_success:
  assumes "stage_amalgamate e out ns ps logs w = (Pipeline_Visualize v, w')" "pv_success v"
    "ns \<noteq> []" "ps \<noteq> []"
  shows "spawned w' = spawned w @
     [python_cmd e ''LipidFinder.run_amalgamator''
        [''-neg'', ns, ''-pos'', ps, ''-p'', CONFIG_DIR e @ ''/amalgamator.json'', ''-o'', out],
      python_cmd e ''LipidFinder.run_mssearch''
        [''-i'', os_path_join out ''amalgamated.csv'', ''-p'', tmp_ms_params e, ''-o'', out]]"
proof -
  let ?cmd = "python_cmd e ''LipidFinder.run_amalgamator''
      [''-neg'', ns, ''-pos'', ps, ''-p'', CONFIG_DIR e @ ''/amalgamator.json'', ''-o'', out]"
  let ?p = "fst (subprocess_run e ?cmd (on_disk w))"
  let ?entry = "mk_log_entry ''Amalgamator'' ?cmd ?p"
  have eq: "stage_amalgamate e out ns ps logs w =
      (if returncode ?p \<noteq> 0
       then (failed_view out (logs @ [?entry]), after_spawn e ?cmd w)
       else stage_search e out ns ps (os_path_join out ''amalgamated.csv'')
              (logs @ [?entry]) (after_spawn e ?cmd w))"
    using assms(3,4) by (simp add: stage_amalgamate_def Let_def run_python_module_eq)
  note run = assms(1) [unfolded eq]
  have "returncode ?p = 0"
    using run assms(2) failed_view_not_success by (auto split: if_splits)
  with run have "stage_search e out ns ps (os_path_join out ''amalgamated.csv'')
      (logs @ [?entry]) (after_spawn e ?cmd w) = (Pipeline_Visualize v, w')"
    by simp
  from stage_search_success [OF this] show ?thesis
    by (simp add: after_spawn_fields py_or_def os_path_join_nonempty)
qed

lemma stage_positive_success:
  assumes "stage_positive e out vb ts pos ns logs w = (Pipeline_Visualize v, w')" "pv_success v"
    "pos \<noteq> []" "ns \<noteq> []"
  shows "spawned w' = spawned w @
     [python_cmd e ''LipidFinder.run_peakfilter''
        (peakfilter_args pos (CONFIG_DIR e @ ''/peakfilter.json'') out vb ts),
      python_cmd e ''LipidFinder.run_amalgamator''
        [''-neg'', ns, ''-pos'', os_path_join out ''peakfilter_positive_summary.csv'',
         ''-p'', CONFIG_DIR e @ ''/amalgamator.json'', ''-o'', out],
      python_cmd e ''LipidFinder.run_mssearch''
        [''-i'', os_path_join out ''amalgamated.csv'', ''-p'', tmp_ms_params e, ''-o'', out]]"
proof -
  let ?cmd = "python_cmd e ''LipidFinder.run_peakfilter''
      (peakfilter_args pos (CONFIG_DIR e @ ''/peakfilter.json'') out vb ts)"
  let ?p = "fst (subprocess_run e ?cmd (on_disk w))"
  let ?entry = "mk_log_entry ''PeakFilter (positive)'' ?cmd ?p"
  have eq: "stage_positive e out vb ts pos ns logs w =
      (if returncode ?p \<noteq> 0
       then (failed_view out (logs @ [?entry]), after_spawn e ?cmd w)
       else stage_amalgamate e out ns (os_path_join out ''peakfilter_positive_summary.csv'')
              (logs @ [?entry]) (after_spawn e ?cmd w))"
    using assms(3) by (simp add: stage_positive_def Let_def run_python_module_eq)
  note run = assms(1) [unfolded eq]
  have "returncode ?p = 0"
    using run assms(2) failed_view_not_success by (auto split: if_splits)
  with run have "stage_amalgamate e out ns (os_path_join out ''peakfilter_positive_summary.csv'')
      (logs @ [?entry]) (after_spawn e ?cmd w) = (Pipeline_Visualize v, w')"
    by simp
  from stage_amalgamate_success [OF this assms(2,4)] show ?thesis
    by (simp add: after_spawn_fields os_path_join_nonempty)
qed

lemma stage_negative_success:
  assumes "stage_negative e out vb ts neg pos w = (Pipeline_Visualize v, w')" "pv_success v"
    "neg \<noteq> []" "pos \<noteq> []"
  shows "spawned w' = spawned w @
     [python_cmd e ''LipidFinder.run_peakfilter''
        (peakfilter_args neg (CONFIG_DIR e @ ''/peakfilter.json'') out vb ts),
      python_cmd e ''LipidFinder.run_peakfilter''
        (peakfilter_args pos (CONFIG_DIR e @ ''/peakfilter.json'') out vb ts),
      python_cmd e ''LipidFinder.run_amalgamator''
        [''-neg'', os_path_join out ''peakfilter_negative_summary.csv'',
         ''-pos'', os_path_join out ''peakfilter_positive_summary.csv'',
         ''-p'', CONFIG_DIR e @ ''/amalgamator.json'', ''-o'', out],
      python_cmd e ''LipidFinder.run_mssearch''
        [''-i'', os_path_join out ''amalgamated.csv'', ''-p'', tmp_ms_params e, ''-o'', out]]"
proof -
  let ?cmd = "python_cmd e ''LipidFinder.run_peakfilter''
      (peakfilter_args neg (CONFIG_DIR e @ ''/peakfilter.json'') out vb ts)"
  let ?p = "fst (subprocess_run e ?cmd (on_disk w))"
  let ?entry = "mk_log_entry ''PeakFilter (negative)'' ?cmd ?p"
  have eq: "stage_negative e out vb ts neg pos w =
      (if returncode ?p \<noteq> 0
       then (failed_view out [?entry], after_spawn e ?cmd w)
       else stage_positive e out vb ts pos (os_path_join out ''peakfilter_negative_summary.csv'')
              [?entry] (after_spawn e ?cmd w))"
    using assms(3) by (simp add: stage_negative_def Let_def run_python_module_eq)
  note run = assms(1) [unfolded eq]
  have "returncode ?p = 0"
    using run assms(2) failed_view_not_success by (auto split: if_splits)
  with run have "stage_positive e out vb ts pos (os_path_join out ''peakfilter_negative_summary.csv'')
      [?entry] (after_spawn e ?cmd w) = (Pipeline_Visualize v, w')"
    by simp
  from stage_positive_success [OF this assms(2,4)] show ?thesis
    by (simp add: after_spawn_fields os_path_join_nonempty)
qed

lemma run_pipeline_full_success:
  assumes "run_pipeline_full e f w = (Pipeline_Visualize v, w')" "pv_success v"
    "form_get f ''neg_input'' [] \<noteq> []" "form_get f ''pos_input'' [] \<noteq> []"
  shows "spawned w' = spawned w @
     [python_cmd e ''LipidFinder.run_peakfilter''
        (peakfilter_args (form_get f ''neg_input'' []) (CONFIG_DIR e @ ''/peakfilter.json'')
           (form_get f ''output_dir'' []) (form_flag f ''verbose'') (form_flag f ''timestamp'')),
      python_cmd e ''LipidFinder.run_peakfilter''
        (peakfilter_args (form_get f ''pos_input'' []) (CONFIG_DIR e @ ''/peakfilter.json'')
           (form_get f ''output_dir'' []) (form_flag f ''verbose'') (form_flag f ''timestamp'')),
      python_cmd e ''LipidFinder.run_amalgamator''
        [''-neg'', os_path_join (form_get f ''output_dir'' []) ''peakfilter_negative_summary.csv'',
         ''-pos'', os_path_join (form_get f ''output_dir'' []) ''peakfilter_positive_summary.csv'',
         ''-p'', CONFIG_DIR e @ ''/amalgamator.json'', ''-o'', form_get f ''output_dir'' []],
      python_cmd e ''LipidFinder.run_mssearch''
        [''-i'', os_path_join (form_get f ''output_dir'' []) ''amalgamated.csv'',
         ''-p'', tmp_ms_params e, ''-o'', form_get f ''output_dir'' []]]"
proof -
  from assms(1,3) have "stage_negative e (form_get f ''output_dir'' []) (form_flag f ''verbose'')
      (form_flag f ''timestamp'') (form_get f ''neg_input'' []) (form_get f ''pos_input'' []) w
      = (Pipeline_Visualize v, w')"
    by (auto simp: run_pipeline_full_def pipeline_preflight_def Let_def split: if_splits)
  then show ?thesis using assms(2,3,4) by (rule stage_negative_success)
qed

subsection \<open>Evaluation on the example installation\<close>

lemmas eval_defs =
  run_pipeline_full_def pipeline_auto_inputs_def pipeline_preflight_def missing_parameters_def
  stage_negative_def stage_positive_def stage_amalgamate_def stage_search_def
  pipeline_aggregate_def peakfilter_args_def mk_log_entry_def failed_view_def
  ms_params_overlay_def load_json_file_def setdefault_def tmp_ms_params_def dump_ms_params_def
  db_name_of_def if_file_def
  run_peakfilter_def peakfilter_input_def peakfilter_exec_def peakfilter_route_args_def
  peakfilter_hint_def
  run_amalgamator_def amalgamator_files_def amalgamator_exec_def amalgamator_args_def
  run_mssearch_def mssearch_input_def mssearch_exec_def mssearch_args_def
  xcms_def xcms_state_kwargs_def
  run_python_module_def python_cmd_def after_spawn_def wrote_nothing_def succeeded_def
  update_state_def read_state_def load_state_file_def dump_state_file_def
  form_get_def form_flag_def st_get_def py_or_def usable_def isfile_def
  CONFIG_DIR_def STATE_PATH_def DOCS_DIR_def
  os_path_join_def path_name_def path_parts_def path_div_def path_root_def path_str_def
  lower_def to_lower_def polarity_of_def contains_def sublist_code
  example_env_def failing_env_def example_world_def example_disk_def example_files_def
  example_form_def proc_exit_def peakfilter_form_def amalgamator_form_def stale_world_def
  unconfigured_world_def generic_world_def page_success_def page_logs_def Let_def

subsection \<open>The run state store\<close>

text \<open>
  Claim C6. Whenever the state document is missing, empty or otherwise rejected by
  \<^verbatim>\<open>json.load\<close>, the body of the \<^verbatim>\<open>try\<close> raises and \<^verbatim>\<open>read_state\<close> returns the empty
  map. The empty file is \<open>Unparseable []\<close>. The result type of \<^const>\<open>read_state\<close> has no
  error: nothing reaches the caller.
\<close>

theorem read_state_empty_on_failure:
  "state_json d = Absent \<or> state_json d = Unparseable t \<Longrightarrow>
     read_state d = [] \<and> (\<exists>err. load_state_file d = Inl err)"
  by (auto simp: read_state_def load_state_file_def)

theorem read_state_empty_on_failure_witness:
  "read_state (example_disk\<lparr>state_json := Absent\<rparr>) = []
   \<and> read_state (example_disk\<lparr>state_json := Unparseable []\<rparr>) = []
   \<and> read_state (example_disk\<lparr>state_json := Unparseable ''{''\<rparr>) = []"
  using read_state_empty_on_failure [of "example_disk\<lparr>state_json := Absent\<rparr>" "[]"]
    read_state_empty_on_failure [of "example_disk\<lparr>state_json := Unparseable []\<rparr>" "[]"]
    read_state_empty_on_failure [of "example_disk\<lparr>state_json := Unparseable ''{''\<rparr>" "''{''"]
  by simp

text \<open>
  Claim C7. \<^verbatim>\<open>update_state\<close> writes back the map read from disk with the keyword arguments
  merged in, when the file can be written, and leaves the disk as it was when it cannot;
  no other file changes. Arguments that are \<^verbatim>\<open>None\<close> are ignored, a pair \<open>(k, v)\<close> sets
  key \<open>k\<close> to \<open>v\<close>, keys that are not mentioned keep what they had, and applying the same
  update a second time leaves the disk exactly as the first application left it.
\<close>

theorem update_state_merge_idempotent:
  "(STATE_PATH e \<notin> unwritable d \<longrightarrow>
      state_json (update_state e kwargs d) = Stored (merge_kwargs kwargs (read_state d)))
   \<and> (STATE_PATH e \<in> unwritable d \<longrightarrow> update_state e kwargs d = d)
   \<and> files (update_state e kwargs d) = files d
   \<and> merge_kwargs (filter (\<lambda>kv. snd kv \<noteq> None) kwargs) st = merge_kwargs kwargs st
   \<and> map_of (merge_kwargs [(k, Some v)] st) = (map_of st)(k \<mapsto> v)
   \<and> (k' \<notin> fst ` set kwargs \<longrightarrow>
        map_of (read_state (update_state e kwargs d)) k' = map_of (read_state d) k')
   \<and> update_state e kwargs (update_state e kwargs d) = update_state e kwargs d"
proof -
  have idem: "update_state e kwargs (update_state e kwargs d) = update_state e kwargs d"
    by (rule update_state_idem)
  have other: "k' \<notin> fst ` set kwargs \<longrightarrow>
        map_of (read_state (update_state e kwargs d)) k' = map_of (read_state d) k'"
    by (simp add: read_state_update_state merge_kwargs_other)
  have written: "STATE_PATH e \<notin> unwritable d \<longrightarrow>
      state_json (update_state e kwargs d) = Stored (merge_kwargs kwargs (read_state d))"
    by (simp add: update_state_def dump_state_file_def)
  have failed: "STATE_PATH e \<in> unwritable d \<longrightarrow> update_state e kwargs d = d"
    by (simp add: update_state_def dump_state_file_def)
  have frame: "files (update_state e kwargs d) = files d"
    by (simp add: update_state_def dump_state_file_def)
  have single: "map_of (merge_kwargs [(k, Some v)] st) = (map_of st)(k \<mapsto> v)"
    by (simp add: update_conv')
  show ?thesis
    using idem other written failed frame single merge_kwargs_nulls [of kwargs st] by blast
qed

theorem update_state_merge_idempotent_witness:
  "state_json (update_state example_env [(''a'', Some ''x''), (''n'', None)]
       (example_disk\<lparr>state_json := Stored [(''b'', ''y'')]\<rparr>))
     = Stored [(''b'', ''y''), (''a'', ''x'')]
   \<and> map_of (read_state (update_state example_env [(''a'', Some ''x''), (''n'', None)]
       (example_disk\<lparr>state_json := Stored [(''b'', ''y'')]\<rparr>))) ''b'' = Some ''y''
   \<and> update_state example_env [(''a'', Some ''x''), (''n'', None)]
        (update_state example_env [(''a'', Some ''x''), (''n'', None)]
          (example_disk\<lparr>state_json := Stored [(''b'', ''y'')]\<rparr>))
     = update_state example_env [(''a'', Some ''x''), (''n'', None)]
          (example_disk\<lparr>state_json := Stored [(''b'', ''y'')]\<rparr>)"
  using update_state_merge_idempotent
    [of example_env "example_disk\<lparr>state_json := Stored [(''b'', ''y'')]\<rparr>"
        "[(''a'', Some ''x''), (''n'', None)]" "[]" "''a''" "''x''" "''b''"]
  by (simp add: example_env_def example_disk_def STATE_PATH_def CONFIG_DIR_def
      read_state_def load_state_file_def)

subsection \<open>The full pipeline\<close>

text \<open>
  Claim C3. Whenever a full pipeline run returns its page, the log is not empty and holds
  exactly the stages that were spawned, in order (one entry per subprocess, with its
  command line); every entry but the last is a success, so a failed stage is the last entry
  and nothing is attempted after it; the success flag of the page is the success of the
  last entry, which is the conjunction of the successes of all entries. In particular, when
  the first stage fails the log has exactly one entry and exactly one subprocess was
  spawned, and with a negative input in the request the first stage is the negative filter:
  the positive filter is never invoked after a failed negative filter.
\<close>

theorem pipeline_failure_is_terminal:
  assumes "run_pipeline_full e f w = (Pipeline_Visualize v, w')"
  shows "pv_logs v \<noteq> []
    \<and> spawned w' = spawned w @ drop (length (spawned w)) (spawned w')
    \<and> map command (pv_logs v) = map (join '' '') (drop (length (spawned w)) (spawned w'))
    \<and> list_all success (butlast (pv_logs v))
    \<and> pv_success v = success (last (pv_logs v))
    \<and> pv_success v = list_all success (pv_logs v)
    \<and> (\<not> success (hd (pv_logs v)) \<longrightarrow>
          length (pv_logs v) = 1 \<and> length (spawned w') = length (spawned w) + 1)
    \<and> (form_get f ''neg_input'' [] \<noteq> [] \<longrightarrow>
          title (hd (pv_logs v)) = ''PeakFilter (negative)'')"
proof -
  from assms have "stage_outcome [] w v w'" by (rule run_pipeline_full_outcome)
  then obtain entries cmds where
    logs: "pv_logs v = entries" and sp: "spawned w' = spawned w @ cmds" and
    ne: "entries \<noteq> []" and cmd: "map command entries = map (join '' '') cmds" and
    ok: "list_all success (butlast entries)" and flag: "pv_success v = success (last entries)"
    by (auto elim: stage_outcomeE)
  have len: "length entries = length cmds" using cmd by (metis length_map)
  have one: "\<not> success (hd entries) \<longrightarrow> length entries = 1"
  proof
    assume bad: "\<not> success (hd entries)"
    show "length entries = 1"
    proof (cases entries)
      case Nil
      with ne show ?thesis by simp
    next
      case (Cons x xs)
      with bad ok show ?thesis by (cases xs) auto
    qed
  qed
  have all: "pv_success v = list_all success (pv_logs v)"
    using list_all_butlast_last [OF ne, of success] ok flag logs by simp
  have first: "form_get f ''neg_input'' [] \<noteq> [] \<longrightarrow>
          title (hd (pv_logs v)) = ''PeakFilter (negative)''"
    using run_pipeline_full_first [OF assms] by simp
  show ?thesis using logs sp ne cmd ok flag len one all first by simp
qed

theorem pipeline_failure_is_terminal_witness:
  "\<exists>v w'. run_pipeline_full failing_env example_form example_world = (Pipeline_Visualize v, w')
     \<and> length (pv_logs v) = 1 \<and> \<not> pv_success v \<and> length (spawned w') = 1
     \<and> title (hd (pv_logs v)) = ''PeakFilter (negative)''"
proof -
  have "\<exists>v w'. run_pipeline_full failing_env example_form example_world = (Pipeline_Visualize v, w')
      \<and> \<not> success (hd (pv_logs v))"
    by (simp add: eval_defs)
  then obtain v w' where
    run: "run_pipeline_full failing_env example_form example_world = (Pipeline_Visualize v, w')"
    and bad: "\<not> success (hd (pv_logs v))"
    by blast
  have neg: "form_get example_form ''neg_input'' [] \<noteq> []"
    by (simp add: form_get_def example_form_def)
  have w: "spawned example_world = []" by (simp add: example_world_def)
  from pipeline_failure_is_terminal [OF run] bad neg w
  have "length (pv_logs v) = 1 \<and> \<not> pv_success v \<and> length (spawned w') = 1
     \<and> title (hd (pv_logs v)) = ''PeakFilter (negative)''"
    by (cases "pv_logs v") auto
  with run show ?thesis by blast
qed

lemma missing_nonempty:
  "neg_input \<noteq> [] \<or> pos_input \<noteq> [] \<Longrightarrow>
   \<not> isfile e d (CONFIG_DIR e @ ''/peakfilter.json'')
        \<or> \<not> isfile e d (CONFIG_DIR e @ ''/amalgamator.json'')
        \<or> \<not> isfile e d (CONFIG_DIR e @ ''/mssearch.json'') \<Longrightarrow>
   missing_parameters e d neg_input pos_input \<noteq> []"
  by (auto simp: missing_parameters_def)

lemma preflight_missing:
  "missing_parameters e (on_disk w) n p \<noteq> [] \<Longrightarrow>
   pipeline_preflight e out v t n p w =
     (Redirect ''pipeline'' (''Missing parameters for: ''
            @ join '', '' (missing_parameters e (on_disk w) n p)
            @ ''. Configure them under Params.''), w)"
  by (simp add: pipeline_preflight_def Let_def)

lemma run_pipeline_full_missing:
  "\<not> isfile e (on_disk w) (CONFIG_DIR e @ ''/peakfilter.json'')
        \<or> \<not> isfile e (on_disk w) (CONFIG_DIR e @ ''/amalgamator.json'')
        \<or> \<not> isfile e (on_disk w) (CONFIG_DIR e @ ''/mssearch.json'') \<Longrightarrow>
      \<exists>msg. run_pipeline_full e f w = (Redirect ''pipeline'' msg, w)"
  by (simp add: run_pipeline_full_def Let_def preflight_missing missing_nonempty)

lemma run_pipeline_full_missing_message:
  "form_get f ''output_dir'' [] \<noteq> [] \<Longrightarrow>
   form_get f ''neg_input'' [] \<noteq> [] \<or> form_get f ''pos_input'' [] \<noteq> [] \<Longrightarrow>
   missing_parameters e (on_disk w) (form_get f ''neg_input'' []) (form_get f ''pos_input'' []) \<noteq> [] \<Longrightarrow>
      run_pipeline_full e f w =
        (Redirect ''pipeline''
           (''Missing parameters for: ''
            @ join '', '' (missing_parameters e (on_disk w)
                            (form_get f ''neg_input'' []) (form_get f ''pos_input'' []))
            @ ''. Configure them under Params.''), w)"
  by (auto simp: run_pipeline_full_def Let_def preflight_missing)

lemma missing_parameters_filter:
  "neg_input \<noteq> [] \<or> pos_input \<noteq> [] \<Longrightarrow>
        missing_parameters e d neg_input pos_input =
          filter (\<lambda>stage. \<not> isfile e d (CONFIG_DIR e @ ''/'' @ lower stage @ ''.json''))
            [''PeakFilter'', ''Amalgamator'', ''MSSearch'']"
proof -
  have "lower ''PeakFilter'' = ''peakfilter''" "lower ''Amalgamator'' = ''amalgamator''"
    "lower ''MSSearch'' = ''mssearch''"
    by (simp_all add: lower_def to_lower_def)
  then show "neg_input \<noteq> [] \<or> pos_input \<noteq> [] \<Longrightarrow> ?thesis"
    by (simp add: missing_parameters_def)
qed

text \<open>
  Claim C4. A full pipeline run whose request has no output directory returns at once with
  the message asking for one. A run for which any of the three parameter files is missing
  returns a redirect and leaves the world as it was: nothing is spawned, nothing is written.
  With an output directory and an input in the request the message lists the stages whose
  file is missing, joined by commas, in the order PeakFilter, Amalgamator, MSSearch; the
  files of the amalgamator and of the search are checked whatever the inputs are.
\<close>

theorem pipeline_preconditions:
  "(form_get f ''output_dir'' [] = [] \<longrightarrow>
      run_pipeline_full e f w =
        (Redirect ''pipeline'' ''Please provide an output directory for the pipeline.'', w))
   \<and> (\<not> isfile e (on_disk w) (CONFIG_DIR e @ ''/peakfilter.json'')
        \<or> \<not> isfile e (on_disk w) (CONFIG_DIR e @ ''/amalgamator.json'')
        \<or> \<not> isfile e (on_disk w) (CONFIG_DIR e @ ''/mssearch.json'') \<longrightarrow>
      (\<exists>msg. run_pipeline_full e f w = (Redirect ''pipeline'' msg, w)))
   \<and> (form_get f ''output_dir'' [] \<noteq> []
        \<and> (form_get f ''neg_input'' [] \<noteq> [] \<or> form_get f ''pos_input'' [] \<noteq> [])
        \<and> missing_parameters e (on_disk w) (form_get f ''neg_input'' []) (form_get f ''pos_input'' []) \<noteq> [] \<longrightarrow>
      run_pipeline_full e f w =
        (Redirect ''pipeline''
           (''Missing parameters for: ''
            @ join '', '' (missing_parameters e (on_disk w)
                            (form_get f ''neg_input'' []) (form_get f ''pos_input'' []))
            @ ''. Configure them under Params.''), w))
   \<and> (neg_input \<noteq> [] \<or> pos_input \<noteq> [] \<longrightarrow>
        missing_parameters e d neg_input pos_input =
          filter (\<lambda>stage. \<not> isfile e d (CONFIG_DIR e @ ''/'' @ lower stage @ ''.json''))
            [''PeakFilter'', ''Amalgamator'', ''MSSearch''])"
proof -
  have a: "form_get f ''output_dir'' [] = [] \<longrightarrow>
      run_pipeline_full e f w =
        (Redirect ''pipeline'' ''Please provide an output directory for the pipeline.'', w)"
    by (simp add: run_pipeline_full_def)
  show ?thesis
    using a run_pipeline_full_missing [of e w f] run_pipeline_full_missing_message [of f e w]
      missing_parameters_filter [of neg_input pos_input e d]
    by blast
qed

theorem pipeline_preconditions_witness:
  "run_pipeline_full example_env Map.empty example_world =
     (Redirect ''pipeline'' ''Please provide an output directory for the pipeline.'', example_world)
   \<and> run_pipeline_full example_env example_form unconfigured_world =
     (Redirect ''pipeline''
        ''Missing parameters for: Amalgamator, MSSearch. Configure them under Params.'',
      unconfigured_world)
   \<and> spawned (snd (run_pipeline_full example_env example_form unconfigured_world)) = []"
  using pipeline_preconditions [of Map.empty example_env example_world "[]" "[]" example_disk]
    pipeline_preconditions [of example_form example_env unconfigured_world
      "''/data/neg.csv''" "''/data/pos.csv''" "on_disk unconfigured_world"]
  by (simp add: eval_defs)

subsection \<open>Polarity\<close>

lemma contains_negative: "contains ''negative'' s \<Longrightarrow> contains ''neg'' s"
proof -
  have "sublist ''neg'' ''negative''" by (simp add: sublist_code)
  then show "contains ''negative'' s \<Longrightarrow> contains ''neg'' s"
    unfolding contains_def by (rule sublist_order.order.trans)
qed

lemma contains_positive: "contains ''positive'' s \<Longrightarrow> contains ''pos'' s"
proof -
  have "sublist ''pos'' ''positive''" by (simp add: sublist_code)
  then show "contains ''positive'' s \<Longrightarrow> contains ''pos'' s"
    unfolding contains_def by (rule sublist_order.order.trans)
qed

lemma polarity_of_cases:
  "polarity_of s =
     (if contains ''neg'' s then Negative else if contains ''pos'' s then Positive else Unknown)"
  using contains_negative contains_positive by (auto simp: polarity_of_def)

lemma pipeline_auto_inputs_specific:
  "st_get (read_state d) ''xcms_last_negative_csv'' \<noteq> []
     \<or> st_get (read_state d) ''xcms_last_positive_csv'' \<noteq> [] \<Longrightarrow>
   pipeline_auto_inputs e d =
     (st_get (read_state d) ''xcms_last_negative_csv'',
      st_get (read_state d) ''xcms_last_positive_csv'')"
  by (auto simp: pipeline_auto_inputs_def Let_def py_or_def)

lemma pipeline_auto_inputs_generic:
  "st_get (read_state d) ''xcms_last_negative_csv'' = [] \<Longrightarrow>
   st_get (read_state d) ''xcms_last_positive_csv'' = [] \<Longrightarrow>
   pipeline_auto_inputs e d =
     (if usable e d (st_get (read_state d) ''xcms_last_csv'') then
        (if polarity_of (lower (path_name (st_get (read_state d) ''xcms_last_csv''))) = Positive
         then ([], st_get (read_state d) ''xcms_last_csv'')
         else (st_get (read_state d) ''xcms_last_csv'', []))
      else ([], []))"
  by (simp add: pipeline_auto_inputs_def Let_def py_or_def split: polarity.splits)

lemma run_pipeline_full_auto:
  "form_get f ''output_dir'' [] \<noteq> [] \<Longrightarrow>
   form_get f ''neg_input'' [] = [] \<Longrightarrow> form_get f ''pos_input'' [] = [] \<Longrightarrow>
   run_pipeline_full e f w =
     (if fst (pipeline_auto_inputs e (on_disk w)) = [] \<and> snd (pipeline_auto_inputs e (on_disk w)) = []
      then (Redirect ''pipeline'' ''No inputs found. Run XCMS first to generate aligned CSVs.'', w)
      else pipeline_preflight e (form_get f ''output_dir'' []) (form_flag f ''verbose'')
             (form_flag f ''timestamp'') (fst (pipeline_auto_inputs e (on_disk w)))
             (snd (pipeline_auto_inputs e (on_disk w))) w)"
  by (simp add: run_pipeline_full_def Let_def)

text \<open>
  Claim C9. The polarity of a lower-cased name is negative when it contains \<^verbatim>\<open>neg\<close>,
  else positive when it contains \<^verbatim>\<open>pos\<close>, else unknown (the tests for \<^verbatim>\<open>negative\<close> and
  \<^verbatim>\<open>positive\<close> add nothing). A full pipeline run whose request gives no input takes the
  polarity entries of the state when one of them is set; only when neither is set does it
  look at the generic entry, which must be an existing file and goes to the positive branch
  when its file name is positive and to the negative branch otherwise, so also when the
  name tells no polarity. The alignment route writes the generic key always and a polarity
  key only when the lower-cased result path tells one.
\<close>

theorem polarity_inference_and_default:
  "polarity_of s =
     (if contains ''neg'' s then Negative else if contains ''pos'' s then Positive else Unknown)
   \<and> (st_get (read_state d) ''xcms_last_negative_csv'' \<noteq> []
        \<or> st_get (read_state d) ''xcms_last_positive_csv'' \<noteq> [] \<longrightarrow>
      pipeline_auto_inputs e d =
        (st_get (read_state d) ''xcms_last_negative_csv'',
         st_get (read_state d) ''xcms_last_positive_csv''))
   \<and> (st_get (read_state d) ''xcms_last_negative_csv'' = []
        \<and> st_get (read_state d) ''xcms_last_positive_csv'' = [] \<longrightarrow>
      pipeline_auto_inputs e d =
        (if usable e d (st_get (read_state d) ''xcms_last_csv'') then
           (if polarity_of (lower (path_name (st_get (read_state d) ''xcms_last_csv''))) = Positive
            then ([], st_get (read_state d) ''xcms_last_csv'')
            else (st_get (read_state d) ''xcms_last_csv'', []))
         else ([], [])))
   \<and> (form_get f ''output_dir'' [] \<noteq> [] \<and> form_get f ''neg_input'' [] = []
        \<and> form_get f ''pos_input'' [] = [] \<longrightarrow>
      run_pipeline_full e f w =
        (if fst (pipeline_auto_inputs e (on_disk w)) = []
            \<and> snd (pipeline_auto_inputs e (on_disk w)) = []
         then (Redirect ''pipeline'' ''No inputs found. Run XCMS first to generate aligned CSVs.'', w)
         else pipeline_preflight e (form_get f ''output_dir'' []) (form_flag f ''verbose'')
                (form_flag f ''timestamp'') (fst (pipeline_auto_inputs e (on_disk w)))
                (snd (pipeline_auto_inputs e (on_disk w))) w))
   \<and> xcms_state_kwargs rp =
        (''xcms_last_csv'', Some rp) #
        (if contains ''neg'' (lower rp) then [(''xcms_last_negative_csv'', Some rp)]
         else if contains ''pos'' (lower rp) then [(''xcms_last_positive_csv'', Some rp)]
         else [])"
  using polarity_of_cases [of s] pipeline_auto_inputs_specific [of d e]
    pipeline_auto_inputs_generic [of d e] run_pipeline_full_auto [of f e w]
  by (simp add: xcms_state_kwargs_def polarity_of_cases)

theorem polarity_inference_and_default_witness:
  "polarity_of (lower ''Sample_NEG_vs_Pos.CSV'') = Negative
   \<and> polarity_of (lower ''run_POSITIVE.csv'') = Positive
   \<and> pipeline_auto_inputs example_env (on_disk generic_world) = (''/data/aligned.csv'', [])
   \<and> (\<exists>v w'. run_pipeline_full example_env [''output_dir'' \<mapsto> ''/out''] generic_world
               = (Pipeline_Visualize v, w')
        \<and> map title (pv_logs v) = [''PeakFilter (negative)'', ''MSSearch''])
   \<and> xcms_state_kwargs ''/data/aligned.csv'' = [(''xcms_last_csv'', Some ''/data/aligned.csv'')]"
  using polarity_inference_and_default
      [of "lower ''Sample_NEG_vs_Pos.CSV''" "on_disk generic_world" example_env
          "[''output_dir'' \<mapsto> ''/out'']" generic_world "''/data/aligned.csv''"]
    polarity_inference_and_default
      [of "lower ''run_POSITIVE.csv''" "on_disk generic_world" example_env
          "[''output_dir'' \<mapsto> ''/out'']" generic_world "''/data/aligned.csv''"]
  by (simp add: eval_defs)

subsection \<open>What the stage routes record\<close>

text \<open>
  Claim C10. A standalone PeakFilter request with an empty output directory writes
  nothing: the world it leaves is the one it started in or the one its subprocess left. The
  same holds for a standalone Amalgamator request with an empty output directory or whose
  subprocess failed; with an output directory and a successful subprocess the route stores
  \<^verbatim>\<open>amalgamator_last_csv\<close> as \<^verbatim>\<open><output_dir>/amalgamated.csv\<close> on the disk the subprocess
  left.
\<close>

theorem standalone_records_only_with_output_dir:
  "(form_get f ''output_dir'' [] = [] \<longrightarrow> wrote_nothing e w (snd (run_peakfilter e f w)))
   \<and> (form_get f ''output_dir'' [] = [] \<or> \<not> succeeded (fst (run_amalgamator e f w)) \<longrightarrow>
        wrote_nothing e w (snd (run_amalgamator e f w)))
   \<and> (form_get f ''output_dir'' [] \<noteq> [] \<and> succeeded (fst (run_amalgamator e f w)) \<longrightarrow>
        on_disk (snd (run_amalgamator e f w)) =
          update_state e
            [(''amalgamator_last_csv'',
              Some (os_path_join (form_get f ''output_dir'' []) ''amalgamated.csv''))]
            (on_disk (after_spawn e (last (spawned (snd (run_amalgamator e f w)))) w)))"
  using run_peakfilter_quiet [of f e w] run_amalgamator_quiet [of f e w]
    run_amalgamator_records [of f e w]
  by blast

theorem standalone_records_only_with_output_dir_witness:
  "wrote_nothing example_env example_world
     (snd (run_peakfilter example_env [''input_path'' \<mapsto> ''/data/neg.csv''] example_world))
   \<and> state_json (on_disk
        (snd (run_peakfilter example_env [''input_path'' \<mapsto> ''/data/neg.csv''] example_world))) = Absent
   \<and> wrote_nothing failing_env example_world
        (snd (run_amalgamator failing_env amalgamator_form example_world))
   \<and> state_json (on_disk (snd (run_amalgamator example_env amalgamator_form example_world)))
        = Stored [(''amalgamator_last_csv'', ''/out/amalgamated.csv'')]"
  using standalone_records_only_with_output_dir
      [of "[''input_path'' \<mapsto> ''/data/neg.csv'']" example_env example_world]
    standalone_records_only_with_output_dir [of amalgamator_form failing_env example_world]
    standalone_records_only_with_output_dir [of amalgamator_form example_env example_world]
  by (simp add: eval_defs)

text \<open>
  Claim C5, at an input where the source departs from it. A standalone PeakFilter run on
  \<^verbatim>\<open>/data/neg.csv\<close> with output directory \<^verbatim>\<open>/out\<close> whose subprocess exits with code 1 is
  reported as failed, and yet the state document, absent before, holds
  \<^verbatim>\<open>peakfilter_last_negative_summary\<close> afterwards: the hint is stored without a look at the
  return code, unlike in the amalgamator and alignment routes.
\<close>

theorem failed_peakfilter_run_records_summary:
  "\<not> succeeded (fst (run_peakfilter failing_env peakfilter_form example_world))
   \<and> state_json (on_disk example_world) = Absent
   \<and> state_json (on_disk (snd (run_peakfilter failing_env peakfilter_form example_world)))
       = Stored [(''peakfilter_last_negative_summary'', ''/out/peakfilter_negative_summary.csv'')]"
  by (simp add: eval_defs)

text \<open>
  Claim C2, at an input where the source departs from it. The state names an amalgamated
  file that no longer exists and a negative summary that does. A standalone search request
  without input spawns the search on the missing amalgamated file: the \<^verbatim>\<open>or\<close> chain of
  \<^verbatim>\<open>run_mssearch\<close> takes the first non-empty entry and never asks \<^verbatim>\<open>os.path.isfile\<close>, as
  \<^verbatim>\<open>run_peakfilter\<close> does for its candidates.
\<close>

theorem mssearch_takes_stale_state_entry:
  "\<not> isfile example_env (on_disk stale_world) ''/out/amalgamated.csv''
   \<and> isfile example_env (on_disk stale_world) ''/out/peakfilter_negative_summary.csv''
   \<and> spawned (snd (run_mssearch example_env [''output_dir'' \<mapsto> ''/out''] stale_world))
       = [[''python'', ''-m'', ''LipidFinder.run_mssearch'', ''-i'', ''/out/amalgamated.csv'',
           ''-p'', ''/app/webapp/config/mssearch.json'', ''-o'', ''/out'']]"
  by (simp add: eval_defs)

subsection \<open>What a full pipeline run records\<close>

lemma page_successD:
  assumes "page_success (fst r)"
  obtains v where "r = (Pipeline_Visualize v, snd r)" "pv_success v"
  using assms by (cases r; cases "fst r") (auto simp: page_success_def)

text \<open>
  Claim C1, corrected. A full pipeline run hands each stage's output location to the next
  stage within the run and records none of them: \<^verbatim>\<open>run_pipeline_full\<close> has no call of
  \<^verbatim>\<open>update_state\<close>. As long as the stage subprocesses leave the state document alone, it is
  after the run what it was before; and a successful run on both polarities spawns exactly
  the two filters, the amalgamator on the two summaries under the output directory and the
  search on \<^verbatim>\<open>amalgamated.csv\<close> under the output directory.
\<close>

theorem pipeline_passes_outputs_in_run:
  "((\<forall>cmd d. state_json (snd (subprocess_run e cmd d)) = state_json d) \<longrightarrow>
      state_json (on_disk (snd (run_pipeline_full e f w))) = state_json (on_disk w))
   \<and> (page_success (fst (run_pipeline_full e f w))
        \<and> form_get f ''neg_input'' [] \<noteq> [] \<and> form_get f ''pos_input'' [] \<noteq> [] \<longrightarrow>
      spawned (snd (run_pipeline_full e f w)) = spawned w @
       [python_cmd e ''LipidFinder.run_peakfilter''
          (peakfilter_args (form_get f ''neg_input'' []) (CONFIG_DIR e @ ''/peakfilter.json'')
             (form_get f ''output_dir'' []) (form_flag f ''verbose'') (form_flag f ''timestamp'')),
        python_cmd e ''LipidFinder.run_peakfilter''
          (peakfilter_args (form_get f ''pos_input'' []) (CONFIG_DIR e @ ''/peakfilter.json'')
             (form_get f ''output_dir'' []) (form_flag f ''verbose'') (form_flag f ''timestamp'')),
        python_cmd e ''LipidFinder.run_amalgamator''
          [''-neg'', os_path_join (form_get f ''output_dir'' []) ''peakfilter_negative_summary.csv'',
           ''-pos'', os_path_join (form_get f ''output_dir'' []) ''peakfilter_positive_summary.csv'',
           ''-p'', CONFIG_DIR e @ ''/amalgamator.json'', ''-o'', form_get f ''output_dir'' []],
        python_cmd e ''LipidFinder.run_mssearch''
          [''-i'', os_path_join (form_get f ''output_dir'' []) ''amalgamated.csv'',
           ''-p'', tmp_ms_params e, ''-o'', form_get f ''output_dir'' []]])"
proof (intro conjI impI)
  assume "\<forall>cmd d. state_json (snd (subprocess_run e cmd d)) = state_json d"
  then show "state_json (on_disk (snd (run_pipeline_full e f w))) = state_json (on_disk w)"
    by (intro pipeline_keeps_state) simp
next
  assume a: "page_success (fst (run_pipeline_full e f w))
        \<and> form_get f ''neg_input'' [] \<noteq> [] \<and> form_get f ''pos_input'' [] \<noteq> []"
  then obtain v where
    run: "run_pipeline_full e f w = (Pipeline_Visualize v, snd (run_pipeline_full e f w))"
    and ok: "pv_success v"
    by (auto elim: page_successD)
  show "spawned (snd (run_pipeline_full e f w)) = spawned w @
       [python_cmd e ''LipidFinder.run_peakfilter''
          (peakfilter_args (form_get f ''neg_input'' []) (CONFIG_DIR e @ ''/peakfilter.json'')
             (form_get f ''output_dir'' []) (form_flag f ''verbose'') (form_flag f ''timestamp'')),
        python_cmd e ''LipidFinder.run_peakfilter''
          (peakfilter_args (form_get f ''pos_input'' []) (CONFIG_DIR e @ ''/peakfilter.json'')
             (form_get f ''output_dir'' []) (form_flag f ''verbose'') (form_flag f ''timestamp'')),
        python_cmd e ''LipidFinder.run_amalgamator''
          [''-neg'', os_path_join (form_get f ''output_dir'' []) ''peakfilter_negative_summary.csv'',
           ''-pos'', os_path_join (form_get f ''output_dir'' []) ''peakfilter_positive_summary.csv'',
           ''-p'', CONFIG_DIR e @ ''/amalgamator.json'', ''-o'', form_get f ''output_dir'' []],
        python_cmd e ''LipidFinder.run_mssearch''
          [''-i'', os_path_join (form_get f ''output_dir'' []) ''amalgamated.csv'',
           ''-p'', tmp_ms_params e, ''-o'', form_get f ''output_dir'' []]]"
    using run_pipeline_full_success [OF run ok] a by blast
qed

theorem pipeline_passes_outputs_in_run_witness:
  "state_json (on_disk (snd (run_pipeline_full example_env example_form example_world))) = Absent
   \<and> spawned (snd (run_pipeline_full example_env example_form example_world)) =
       [[''python'', ''-m'', ''LipidFinder.run_peakfilter'', ''-i'', ''/data/neg.csv'',
         ''-p'', ''/app/webapp/config/peakfilter.json'', ''-o'', ''/out''],
        [''python'', ''-m'', ''LipidFinder.run_peakfilter'', ''-i'', ''/data/pos.csv'',
         ''-p'', ''/app/webapp/config/peakfilter.json'', ''-o'', ''/out''],
        [''python'', ''-m'', ''LipidFinder.run_amalgamator'',
         ''-neg'', ''/out/peakfilter_negative_summary.csv'',
         ''-pos'', ''/out/peakfilter_positive_summary.csv'',
         ''-p'', ''/app/webapp/config/amalgamator.json'', ''-o'', ''/out''],
        [''python'', ''-m'', ''LipidFinder.run_mssearch'', ''-i'', ''/out/amalgamated.csv'',
         ''-p'', ''/app/webapp/config/mssearch_web_pipeline.json'', ''-o'', ''/out'']]"
  using pipeline_passes_outputs_in_run [of example_env example_form example_world]
  by (simp add: eval_defs)

text \<open>
  Claim C1 as worded fails on the example installation: all four stages succeed, and the
  state document is still absent, so neither \<^verbatim>\<open>amalgamator_last_csv\<close> nor
  \<^verbatim>\<open>peakfilter_last_negative_summary\<close> can be read from it.
\<close>

theorem pipeline_records_nothing_counterexample:
  "page_success (fst (run_pipeline_full example_env example_form example_world))
   \<and> map title (page_logs (fst (run_pipeline_full example_env example_form example_world)))
       = [''PeakFilter (negative)'', ''PeakFilter (positive)'', ''Amalgamator'', ''MSSearch'']
   \<and> state_json (on_disk (snd (run_pipeline_full example_env example_form example_world))) = Absent
   \<and> map_of (read_state (on_disk (snd (run_pipeline_full example_env example_form example_world))))
        ''amalgamator_last_csv'' = None
   \<and> map_of (read_state (on_disk (snd (run_pipeline_full example_env example_form example_world))))
        ''peakfilter_last_negative_summary'' = None"
  by (simp add: eval_defs)

subsection \<open>The parameter overlay of the search stage\<close>

lemma map_of_setdefault:
  "map_of (setdefault k v obj) k' =
     (if k' = k then (case map_of obj k of None \<Rightarrow> Some v | Some x \<Rightarrow> Some x) else map_of obj k')"
  by (cases "map_of obj k") (auto simp: setdefault_def map_add_def split: option.splits)

lemma map_of_overlay:
  "map_of (AList.update ''figFormat'' (JStr ''png'')
                 (setdefault ''summary'' (JBool True)
                    (setdefault ''plotCategories'' (JBool True) saved))) k =
     (if k = ''figFormat'' then Some (JStr ''png'')
      else if k = ''plotCategories'' \<or> k = ''summary''
        then Some (case map_of saved k of None \<Rightarrow> JBool True | Some x \<Rightarrow> x)
      else map_of saved k)"
proof -
  have ne: "''summary'' \<noteq> ''plotCategories''" by simp
  show ?thesis
    unfolding update_conv' fun_upd_def map_of_setdefault
    using ne by (cases "map_of saved k") auto
qed

lemma ms_params_overlay_saved:
  assumes "load_json_file e d (CONFIG_DIR e @ ''/mssearch.json'') = Inr (JObj saved)"
    and "ms_params_overlay e d = Inr obj"
  shows "map_of obj k =
     (if k = ''figFormat'' then Some (JStr ''png'')
      else if k = ''plotCategories'' \<or> k = ''summary''
        then Some (case map_of saved k of None \<Rightarrow> JBool True | Some x \<Rightarrow> x)
      else map_of saved k)"
proof -
  have "ms_params_overlay e d =
      Inr (AList.update ''figFormat'' (JStr ''png'')
                 (setdefault ''summary'' (JBool True)
                    (setdefault ''plotCategories'' (JBool True) saved)))"
    unfolding ms_params_overlay_def assms(1) by simp
  with assms(2) have "obj = AList.update ''figFormat'' (JStr ''png'')
                 (setdefault ''summary'' (JBool True)
                    (setdefault ''plotCategories'' (JBool True) saved))"
    by simp
  then show ?thesis by (simp only: map_of_overlay)
qed

lemma tmp_ms_params_other: "tmp_ms_params e \<noteq> CONFIG_DIR e @ ''/mssearch.json''"
  by (simp add: tmp_ms_params_def)

lemma dump_ms_params_frame:
  assumes "dump_ms_params e obj d = Inr d'"
  shows "files d' (tmp_ms_params e) = Some (Json (JObj obj))
    \<and> files d' (CONFIG_DIR e @ ''/mssearch.json'') = files d (CONFIG_DIR e @ ''/mssearch.json'')
    \<and> state_json d' = state_json d"
proof -
  from assms have "d' = d\<lparr>files := (files d)(tmp_ms_params e \<mapsto> Json (JObj obj))\<rparr>"
    unfolding dump_ms_params_def by (cases "tmp_ms_params e \<in> unwritable d") simp_all
  then show ?thesis using tmp_ms_params_other [of e] by simp
qed

text \<open>
  Claim C8, corrected. The search stage of a full run works on an overlay of the saved
  parameter set, written to \<^verbatim>\<open>mssearch_web_pipeline.json\<close>: the chart format is \<^verbatim>\<open>png\<close>
  whatever was saved, \<^verbatim>\<open>plotCategories\<close> and \<^verbatim>\<open>summary\<close> are true only where the saved set
  does not define them (a saved value, also a false one, is kept), every other key is the
  saved one. Writing the overlay leaves \<^verbatim>\<open>mssearch.json\<close> and the state document as they
  are, the search subprocess is given the overlay file, and the whole run leaves
  \<^verbatim>\<open>mssearch.json\<close> as it was as long as the stage subprocesses do.
\<close>

theorem search_overlay_defaults_only:
  "(load_json_file e d (CONFIG_DIR e @ ''/mssearch.json'') = Inr (JObj saved)
      \<and> ms_params_overlay e d = Inr obj \<longrightarrow>
      map_of obj k =
        (if k = ''figFormat'' then Some (JStr ''png'')
         else if k = ''plotCategories'' \<or> k = ''summary''
           then Some (case map_of saved k of None \<Rightarrow> JBool True | Some x \<Rightarrow> x)
         else map_of saved k))
   \<and> (dump_ms_params e obj d = Inr d' \<longrightarrow>
        files d' (tmp_ms_params e) = Some (Json (JObj obj))
        \<and> files d' (CONFIG_DIR e @ ''/mssearch.json'') = files d (CONFIG_DIR e @ ''/mssearch.json'')
        \<and> state_json d' = state_json d)
   \<and> ((\<exists>v. fst (stage_search e out ns ps am logs w) = Pipeline_Visualize v) \<longrightarrow>
        (\<exists>obj1 d1. ms_params_overlay e (on_disk w) = Inr obj1
           \<and> dump_ms_params e obj1 (on_disk w) = Inr d1
           \<and> snd (stage_search e out ns ps am logs w) =
               after_spawn e (python_cmd e ''LipidFinder.run_mssearch''
                 [''-i'', py_or am (py_or ns ps), ''-p'', tmp_ms_params e, ''-o'', out])
                 (w\<lparr>on_disk := d1\<rparr>)))
   \<and> ((\<forall>cmd d0. files (snd (subprocess_run e cmd d0)) (CONFIG_DIR e @ ''/mssearch.json'')
                    = files d0 (CONFIG_DIR e @ ''/mssearch.json'')) \<longrightarrow>
        files (on_disk (snd (run_pipeline_full e f w))) (CONFIG_DIR e @ ''/mssearch.json'')
          = files (on_disk w) (CONFIG_DIR e @ ''/mssearch.json''))"
proof (intro conjI impI)
  assume a: "load_json_file e d (CONFIG_DIR e @ ''/mssearch.json'') = Inr (JObj saved)
      \<and> ms_params_overlay e d = Inr obj"
  show "map_of obj k =
        (if k = ''figFormat'' then Some (JStr ''png'')
         else if k = ''plotCategories'' \<or> k = ''summary''
           then Some (case map_of saved k of None \<Rightarrow> JBool True | Some x \<Rightarrow> x)
         else map_of saved k)"
    by (rule ms_params_overlay_saved [OF conjunct1 [OF a] conjunct2 [OF a]])
next
  assume a: "dump_ms_params e obj d = Inr d'"
  show "files d' (tmp_ms_params e) = Some (Json (JObj obj))"
    using dump_ms_params_frame [OF a] by simp
  show "files d' (CONFIG_DIR e @ ''/mssearch.json'') = files d (CONFIG_DIR e @ ''/mssearch.json'')"
    using dump_ms_params_frame [OF a] by simp
  show "state_json d' = state_json d"
    using dump_ms_params_frame [OF a] by simp
next
  assume "\<exists>v. fst (stage_search e out ns ps am logs w) = Pipeline_Visualize v"
  then obtain v where v: "fst (stage_search e out ns ps am logs w) = Pipeline_Visualize v" ..
  have "stage_search e out ns ps am logs w
      = (Pipeline_Visualize v, snd (stage_search e out ns ps am logs w))"
    unfolding v [symmetric] by (rule prod.collapse [symmetric])
  then show "\<exists>obj1 d1. ms_params_overlay e (on_disk w) = Inr obj1
           \<and> dump_ms_params e obj1 (on_disk w) = Inr d1
           \<and> snd (stage_search e out ns ps am logs w) =
               after_spawn e (python_cmd e ''LipidFinder.run_mssearch''
                 [''-i'', py_or am (py_or ns ps), ''-p'', tmp_ms_params e, ''-o'', out])
                 (w\<lparr>on_disk := d1\<rparr>)"
    by (rule stage_search_spawn) blast
next
  assume "\<forall>cmd d0. files (snd (subprocess_run e cmd d0)) (CONFIG_DIR e @ ''/mssearch.json'')
                    = files d0 (CONFIG_DIR e @ ''/mssearch.json'')"
  then show "files (on_disk (snd (run_pipeline_full e f w))) (CONFIG_DIR e @ ''/mssearch.json'')
          = files (on_disk w) (CONFIG_DIR e @ ''/mssearch.json'')"
    by (intro pipeline_keeps_mssearch_json) simp
qed

end
